theory Spec2Isabelle
  imports Main "HOL-Library.Signed_Division" "HOL-Library.Sublist" "HOL-Library.Char_ord"
    "HOL-Library.Multiset"
    "HOL-Library.List_Lexorder"
begin

section \<open>C strings and buffers\<close>

text \<open>
  A C string is modelled by the list of the bytes before its terminating NUL.  A buffer
  whose bytes are overwritten in place (the Digital Link URI) is a list that may hold NUL
  bytes; \<open>cstr b i\<close> is then the C string that starts at offset \<open>i\<close>.  Pointers into a
  buffer are offsets of type \<open>nat\<close>.  The end of the list counts as a terminator.
\<close>

abbreviation NUL :: char where
  "NUL \<equiv> CHR 0x00"

definition cstr :: "string \<Rightarrow> nat \<Rightarrow> string" where
  "cstr b i = takeWhile (\<lambda>c. c \<noteq> NUL) (drop i b)"

definition deref :: "string \<Rightarrow> nat \<Rightarrow> char" where
  \<comment> \<open>\<open>*p\<close>: the byte at offset \<open>p\<close>, the terminator at the end of the buffer\<close>
  "deref b p = (if p < length b then b ! p else NUL)"

definition strlen :: "string \<Rightarrow> nat \<Rightarrow> nat" where
  "strlen b i = length (cstr b i)"

definition strchr :: "string \<Rightarrow> nat \<Rightarrow> char \<Rightarrow> nat option" where
  \<comment> \<open>offset of the first \<open>c\<close> in the C string at \<open>i\<close>; \<open>None\<close> is the NULL result\<close>
  "strchr b i c = (if c \<in> set (cstr b i)
                   then Some (i + length (takeWhile (\<lambda>x. x \<noteq> c) (cstr b i))) else None)"

definition strrchr :: "string \<Rightarrow> nat \<Rightarrow> char \<Rightarrow> nat option" where
  \<comment> \<open>offset of the last \<open>c\<close> in the C string at \<open>i\<close>\<close>
  "strrchr b i c = (if c \<in> set (cstr b i)
                    then Some (i + (strlen b i - 1 - length (takeWhile (\<lambda>x. x \<noteq> c) (rev (cstr b i)))))
                    else None)"

definition strncmp_eq :: "string \<Rightarrow> string \<Rightarrow> nat \<Rightarrow> bool" where
  \<comment> \<open>\<open>strncmp(a, b, n) == 0\<close> on two C strings\<close>
  "strncmp_eq a b n = (take n a = take n b)"

definition strncat :: "string \<Rightarrow> string \<Rightarrow> nat \<Rightarrow> string" where
  \<comment> \<open>\<open>strncat(d, v, l)\<close>: at most \<open>l\<close> bytes of \<open>v\<close>, stopping at a NUL\<close>
  "strncat d v l = d @ takeWhile (\<lambda>c. c \<noteq> NUL) (take l v)"

section \<open>The AI table\<close>

datatype cset = cset_none | cset_N | cset_X | cset_C

datatype linter_t = Lint_cset82 | Lint_csetNumeric | Lint_csum

record aiComponent =
  cset :: cset
  min_c :: nat
  max_c :: nat
  linters :: "linter_t list"

record aiEntry =
  ai :: string
  fnc1 :: bool
  parts :: "aiComponent list"
  title :: string

abbreviation (input) FNC1 :: bool where
  "FNC1 \<equiv> True"

abbreviation (input) NO_FNC1 :: bool where
  "NO_FNC1 \<equiv> False"

abbreviation (input) csum :: "linter_t list" where
  "csum \<equiv> [Lint_csum]"

abbreviation (input) no_lint :: "linter_t list" where
  "no_lint \<equiv> []"

abbreviation (input) no_part :: "cset \<times> nat \<times> nat \<times> linter_t list" where
  "no_part \<equiv> (cset_none, 0, 0, no_lint)"

definition mk_part :: "cset \<times> nat \<times> nat \<times> linter_t list \<Rightarrow> aiComponent" where
  "mk_part x = (case x of (c, mn, mx, ls) \<Rightarrow> \<lparr>cset = c, min_c = mn, max_c = mx, linters = ls\<rparr>)"

definition AI :: "string \<Rightarrow> bool \<Rightarrow> cset \<times> nat \<times> nat \<times> linter_t list
    \<Rightarrow> cset \<times> nat \<times> nat \<times> linter_t list \<Rightarrow> cset \<times> nat \<times> nat \<times> linter_t list
    \<Rightarrow> cset \<times> nat \<times> nat \<times> linter_t list \<Rightarrow> cset \<times> nat \<times> nat \<times> linter_t list
    \<Rightarrow> string \<Rightarrow> aiEntry" where
  \<comment> \<open>the macro \<open>AI_VA\<close>: an entry with its five components\<close>
  "AI a f c1 c2 c3 c4 c5 t =
     \<lparr>ai = a, fnc1 = f, parts = map mk_part [c1, c2, c3, c4, c5], title = t\<rparr>"

definition ai_table_00 :: "aiEntry list" where
  "ai_table_00 = [
    AI ''00'' NO_FNC1 (cset_N, 18, 18, csum) no_part no_part no_part no_part ''SSCC'',
    AI ''01'' NO_FNC1 (cset_N, 14, 14, csum) no_part no_part no_part no_part ''GTIN'',
    AI ''02'' NO_FNC1 (cset_N, 14, 14, csum) no_part no_part no_part no_part ''CONTENT'',
    AI ''10'' FNC1 (cset_X, 1, 20, no_lint) no_part no_part no_part no_part ''BATCH/LOT'',
    AI ''11'' NO_FNC1 (cset_N, 6, 6, no_lint) no_part no_part no_part no_part ''PROD DATE'',
    AI ''12'' NO_FNC1 (cset_N, 6, 6, no_lint) no_part no_part no_part no_part ''DUE DATE'',
    AI ''13'' NO_FNC1 (cset_N, 6, 6, no_lint) no_part no_part no_part no_part ''PACK DATE'',
    AI ''15'' NO_FNC1 (cset_N, 6, 6, no_lint) no_part no_part no_part no_part ''BEST BEFORE or BEST BY'',
    AI ''16'' NO_FNC1 (cset_N, 6, 6, no_lint) no_part no_part no_part no_part ''SELL BY'',
    AI ''17'' NO_FNC1 (cset_N, 6, 6, no_lint) no_part no_part no_part no_part ''USE BY or EXPIRY'',
    AI ''20'' NO_FNC1 (cset_N, 2, 2, no_lint) no_part no_part no_part no_part ''VARIANT'',
    AI ''21'' FNC1 (cset_X, 1, 20, no_lint) no_part no_part no_part no_part ''SERIAL'',
    AI ''22'' FNC1 (cset_X, 1, 20, no_lint) no_part no_part no_part no_part ''CPV'',
    AI ''235'' FNC1 (cset_X, 1, 28, no_lint) no_part no_part no_part no_part ''TPX'',
    AI ''240'' FNC1 (cset_X, 1, 30, no_lint) no_part no_part no_part no_part ''ADDITIONAL ID'',
    AI ''241'' FNC1 (cset_X, 1, 30, no_lint) no_part no_part no_part no_part ''CUST. PART NO.'',
    AI ''242'' FNC1 (cset_N, 1, 6, no_lint) no_part no_part no_part no_part ''MTO VARIANT'',
    AI ''243'' FNC1 (cset_X, 1, 20, no_lint) no_part no_part no_part no_part ''PCN'',
    AI ''250'' FNC1 (cset_X, 1, 30, no_lint) no_part no_part no_part no_part ''SECONDARY SERIAL'',
    AI ''251'' FNC1 (cset_X, 1, 30, no_lint) no_part no_part no_part no_part ''REF. TO SOURCE'',
    AI ''253'' FNC1 (cset_N, 13, 13, csum) (cset_X, 0, 17, no_lint) no_part no_part no_part ''GDTI'',
    AI ''254'' FNC1 (cset_X, 1, 20, no_lint) no_part no_part no_part no_part ''GLN EXTENSION COMPONENT'',
    AI ''255'' FNC1 (cset_N, 13, 13, csum) (cset_N, 0, 12, no_lint) no_part no_part no_part ''GCN'',
    AI ''30'' FNC1 (cset_N, 1, 8, no_lint) no_part no_part no_part no_part ''VAR. COUNT'',
    AI ''3100'' NO_FNC1 (cset_N, 6, 6, no_lint) no_part no_part no_part no_part ''NET WEIGHT (kg)'',
    AI ''3101'' NO_FNC1 (cset_N, 6, 6, no_lint) no_part no_part no_part no_part ''NET WEIGHT (kg)'',
    AI ''3102'' NO_FNC1 (cset_N, 6, 6, no_lint) no_part no_part no_part no_part ''NET WEIGHT (kg)'',
    AI ''3103'' NO_FNC1 (cset_N, 6, 6, no_lint) no_part no_part no_part no_part ''NET WEIGHT (kg)'',
    AI ''3104'' NO_FNC1 (cset_N, 6, 6, no_lint) no_part no_part no_part no_part ''NET WEIGHT (kg)'',
    AI ''3105'' NO_FNC1 (cset_N, 6, 6, no_lint) no_part no_part no_part no_part ''NET WEIGHT (kg)'',
    AI ''3110'' NO_FNC1 (cset_N, 6, 6, no_lint) no_part no_part no_part no_part ''LENGTH (m)'',
    AI ''3111'' NO_FNC1 (cset_N, 6, 6, no_lint) no_part no_part no_part no_part ''LENGTH (m)''
  ]"

definition ai_table_01 :: "aiEntry list" where
  "ai_table_01 = [
    AI ''3112'' NO_FNC1 (cset_N, 6, 6, no_lint) no_part no_part no_part no_part ''LENGTH (m)'',
    AI ''3113'' NO_FNC1 (cset_N, 6, 6, no_lint) no_part no_part no_part no_part ''LENGTH (m)'',
    AI ''3114'' NO_FNC1 (cset_N, 6, 6, no_lint) no_part no_part no_part no_part ''LENGTH (m)'',
    AI ''3115'' NO_FNC1 (cset_N, 6, 6, no_lint) no_part no_part no_part no_part ''LENGTH (m)'',
    AI ''3120'' NO_FNC1 (cset_N, 6, 6, no_lint) no_part no_part no_part no_part ''WIDTH (m)'',
    AI ''3121'' NO_FNC1 (cset_N, 6, 6, no_lint) no_part no_part no_part no_part ''WIDTH (m)'',
    AI ''3122'' NO_FNC1 (cset_N, 6, 6, no_lint) no_part no_part no_part no_part ''WIDTH (m)'',
    AI ''3123'' NO_FNC1 (cset_N, 6, 6, no_lint) no_part no_part no_part no_part ''WIDTH (m)'',
    AI ''3124'' NO_FNC1 (cset_N, 6, 6, no_lint) no_part no_part no_part no_part ''WIDTH (m)'',
    AI ''3125'' NO_FNC1 (cset_N, 6, 6, no_lint) no_part no_part no_part no_part ''WIDTH (m)'',
    AI ''3130'' NO_FNC1 (cset_N, 6, 6, no_lint) no_part no_part no_part no_part ''HEIGHT (m)'',
    AI ''3131'' NO_FNC1 (cset_N, 6, 6, no_lint) no_part no_part no_part no_part ''HEIGHT (m)'',
    AI ''3132'' NO_FNC1 (cset_N, 6, 6, no_lint) no_part no_part no_part no_part ''HEIGHT (m)'',
    AI ''3133'' NO_FNC1 (cset_N, 6, 6, no_lint) no_part no_part no_part no_part ''HEIGHT (m)'',
    AI ''3134'' NO_FNC1 (cset_N, 6, 6, no_lint) no_part no_part no_part no_part ''HEIGHT (m)'',
    AI ''3135'' NO_FNC1 (cset_N, 6, 6, no_lint) no_part no_part no_part no_part ''HEIGHT (m)'',
    AI ''3140'' NO_FNC1 (cset_N, 6, 6, no_lint) no_part no_part no_part no_part ''AREA (m^2)'',
    AI ''3141'' NO_FNC1 (cset_N, 6, 6, no_lint) no_part no_part no_part no_part ''AREA (m^2)'',
    AI ''3142'' NO_FNC1 (cset_N, 6, 6, no_lint) no_part no_part no_part no_part ''AREA (m^2)'',
    AI ''3143'' NO_FNC1 (cset_N, 6, 6, no_lint) no_part no_part no_part no_part ''AREA (m^2)'',
    AI ''3144'' NO_FNC1 (cset_N, 6, 6, no_lint) no_part no_part no_part no_part ''AREA (m^2)'',
    AI ''3145'' NO_FNC1 (cset_N, 6, 6, no_lint) no_part no_part no_part no_part ''AREA (m^2)'',
    AI ''3150'' NO_FNC1 (cset_N, 6, 6, no_lint) no_part no_part no_part no_part ''NET VOLUME (l)'',
    AI ''3151'' NO_FNC1 (cset_N, 6, 6, no_lint) no_part no_part no_part no_part ''NET VOLUME (l)'',
    AI ''3152'' NO_FNC1 (cset_N, 6, 6, no_lint) no_part no_part no_part no_part ''NET VOLUME (l)'',
    AI ''3153'' NO_FNC1 (cset_N, 6, 6, no_lint) no_part no_part no_part no_part ''NET VOLUME (l)'',
    AI ''3154'' NO_FNC1 (cset_N, 6, 6, no_lint) no_part no_part no_part no_part ''NET VOLUME (l)'',
    AI ''3155'' NO_FNC1 (cset_N, 6, 6, no_lint) no_part no_part no_part no_part ''NET VOLUME (l)'',
    AI ''3160'' NO_FNC1 (cset_N, 6, 6, no_lint) no_part no_part no_part no_part ''NET VOLUME (m^3)'',
    AI ''3161'' NO_FNC1 (cset_N, 6, 6, no_lint) no_part no_part no_part no_part ''NET VOLUME (m^3)'',
    AI ''3162'' NO_FNC1 (cset_N, 6, 6, no_lint) no_part no_part no_part no_part ''NET VOLUME (m^3)'',
    AI ''3163'' NO_FNC1 (cset_N, 6, 6, no_lint) no_part no_part no_part no_part ''NET VOLUME (m^3)''
  ]"

definition ai_table_02 :: "aiEntry list" where
  "ai_table_02 = [
    AI ''3164'' NO_FNC1 (cset_N, 6, 6, no_lint) no_part no_part no_part no_part ''NET VOLUME (m^3)'',
    AI ''3165'' NO_FNC1 (cset_N, 6, 6, no_lint) no_part no_part no_part no_part ''NET VOLUME (m^3)'',
    AI ''3200'' NO_FNC1 (cset_N, 6, 6, no_lint) no_part no_part no_part no_part ''NET WEIGHT (lb)'',
    AI ''3201'' NO_FNC1 (cset_N, 6, 6, no_lint) no_part no_part no_part no_part ''NET WEIGHT (lb)'',
    AI ''3202'' NO_FNC1 (cset_N, 6, 6, no_lint) no_part no_part no_part no_part ''NET WEIGHT (lb)'',
    AI ''3203'' NO_FNC1 (cset_N, 6, 6, no_lint) no_part no_part no_part no_part ''NET WEIGHT (lb)'',
    AI ''3204'' NO_FNC1 (cset_N, 6, 6, no_lint) no_part no_part no_part no_part ''NET WEIGHT (lb)'',
    AI ''3205'' NO_FNC1 (cset_N, 6, 6, no_lint) no_part no_part no_part no_part ''NET WEIGHT (lb)'',
    AI ''3210'' NO_FNC1 (cset_N, 6, 6, no_lint) no_part no_part no_part no_part ''LENGTH (i)'',
    AI ''3211'' NO_FNC1 (cset_N, 6, 6, no_lint) no_part no_part no_part no_part ''LENGTH (i)'',
    AI ''3212'' NO_FNC1 (cset_N, 6, 6, no_lint) no_part no_part no_part no_part ''LENGTH (i)'',
    AI ''3213'' NO_FNC1 (cset_N, 6, 6, no_lint) no_part no_part no_part no_part ''LENGTH (i)'',
    AI ''3214'' NO_FNC1 (cset_N, 6, 6, no_lint) no_part no_part no_part no_part ''LENGTH (i)'',
    AI ''3215'' NO_FNC1 (cset_N, 6, 6, no_lint) no_part no_part no_part no_part ''LENGTH (i)'',
    AI ''3220'' NO_FNC1 (cset_N, 6, 6, no_lint) no_part no_part no_part no_part ''LENGTH (f)'',
    AI ''3221'' NO_FNC1 (cset_N, 6, 6, no_lint) no_part no_part no_part no_part ''LENGTH (f)'',
    AI ''3222'' NO_FNC1 (cset_N, 6, 6, no_lint) no_part no_part no_part no_part ''LENGTH (f)'',
    AI ''3223'' NO_FNC1 (cset_N, 6, 6, no_lint) no_part no_part no_part no_part ''LENGTH (f)'',
    AI ''3224'' NO_FNC1 (cset_N, 6, 6, no_lint) no_part no_part no_part no_part ''LENGTH (f)'',
    AI ''3225'' NO_FNC1 (cset_N, 6, 6, no_lint) no_part no_part no_part no_part ''LENGTH (f)'',
    AI ''3230'' NO_FNC1 (cset_N, 6, 6, no_lint) no_part no_part no_part no_part ''LENGTH (y)'',
    AI ''3231'' NO_FNC1 (cset_N, 6, 6, no_lint) no_part no_part no_part no_part ''LENGTH (y)'',
    AI ''3232'' NO_FNC1 (cset_N, 6, 6, no_lint) no_part no_part no_part no_part ''LENGTH (y)'',
    AI ''3233'' NO_FNC1 (cset_N, 6, 6, no_lint) no_part no_part no_part no_part ''LENGTH (y)'',
    AI ''3234'' NO_FNC1 (cset_N, 6, 6, no_lint) no_part no_part no_part no_part ''LENGTH (y)'',
    AI ''3235'' NO_FNC1 (cset_N, 6, 6, no_lint) no_part no_part no_part no_part ''LENGTH (y)'',
    AI ''3240'' NO_FNC1 (cset_N, 6, 6, no_lint) no_part no_part no_part no_part ''WIDTH (i)'',
    AI ''3241'' NO_FNC1 (cset_N, 6, 6, no_lint) no_part no_part no_part no_part ''WIDTH (i)'',
    AI ''3242'' NO_FNC1 (cset_N, 6, 6, no_lint) no_part no_part no_part no_part ''WIDTH (i)'',
    AI ''3243'' NO_FNC1 (cset_N, 6, 6, no_lint) no_part no_part no_part no_part ''WIDTH (i)'',
    AI ''3244'' NO_FNC1 (cset_N, 6, 6, no_lint) no_part no_part no_part no_part ''WIDTH (i)'',
    AI ''3245'' NO_FNC1 (cset_N, 6, 6, no_lint) no_part no_part no_part no_part ''WIDTH (i)''
  ]"

definition ai_table_03 :: "aiEntry list" where
  "ai_table_03 = [
    AI ''3250'' NO_FNC1 (cset_N, 6, 6, no_lint) no_part no_part no_part no_part ''WIDTH (f)'',
    AI ''3251'' NO_FNC1 (cset_N, 6, 6, no_lint) no_part no_part no_part no_part ''WIDTH (f)'',
    AI ''3252'' NO_FNC1 (cset_N, 6, 6, no_lint) no_part no_part no_part no_part ''WIDTH (f)'',
    AI ''3253'' NO_FNC1 (cset_N, 6, 6, no_lint) no_part no_part no_part no_part ''WIDTH (f)'',
    AI ''3254'' NO_FNC1 (cset_N, 6, 6, no_lint) no_part no_part no_part no_part ''WIDTH (f)'',
    AI ''3255'' NO_FNC1 (cset_N, 6, 6, no_lint) no_part no_part no_part no_part ''WIDTH (f)'',
    AI ''3260'' NO_FNC1 (cset_N, 6, 6, no_lint) no_part no_part no_part no_part ''WIDTH (y)'',
    AI ''3261'' NO_FNC1 (cset_N, 6, 6, no_lint) no_part no_part no_part no_part ''WIDTH (y)'',
    AI ''3262'' NO_FNC1 (cset_N, 6, 6, no_lint) no_part no_part no_part no_part ''WIDTH (y)'',
    AI ''3263'' NO_FNC1 (cset_N, 6, 6, no_lint) no_part no_part no_part no_part ''WIDTH (y)'',
    AI ''3264'' NO_FNC1 (cset_N, 6, 6, no_lint) no_part no_part no_part no_part ''WIDTH (y)'',
    AI ''3265'' NO_FNC1 (cset_N, 6, 6, no_lint) no_part no_part no_part no_part ''WIDTH (y)'',
    AI ''3270'' NO_FNC1 (cset_N, 6, 6, no_lint) no_part no_part no_part no_part ''HEIGHT (i)'',
    AI ''3271'' NO_FNC1 (cset_N, 6, 6, no_lint) no_part no_part no_part no_part ''HEIGHT (i)'',
    AI ''3272'' NO_FNC1 (cset_N, 6, 6, no_lint) no_part no_part no_part no_part ''HEIGHT (i)'',
    AI ''3273'' NO_FNC1 (cset_N, 6, 6, no_lint) no_part no_part no_part no_part ''HEIGHT (i)'',
    AI ''3274'' NO_FNC1 (cset_N, 6, 6, no_lint) no_part no_part no_part no_part ''HEIGHT (i)'',
    AI ''3275'' NO_FNC1 (cset_N, 6, 6, no_lint) no_part no_part no_part no_part ''HEIGHT (i)'',
    AI ''3280'' NO_FNC1 (cset_N, 6, 6, no_lint) no_part no_part no_part no_part ''HEIGHT (f)'',
    AI ''3281'' NO_FNC1 (cset_N, 6, 6, no_lint) no_part no_part no_part no_part ''HEIGHT (f)'',
    AI ''3282'' NO_FNC1 (cset_N, 6, 6, no_lint) no_part no_part no_part no_part ''HEIGHT (f)'',
    AI ''3283'' NO_FNC1 (cset_N, 6, 6, no_lint) no_part no_part no_part no_part ''HEIGHT (f)'',
    AI ''3284'' NO_FNC1 (cset_N, 6, 6, no_lint) no_part no_part no_part no_part ''HEIGHT (f)'',
    AI ''3285'' NO_FNC1 (cset_N, 6, 6, no_lint) no_part no_part no_part no_part ''HEIGHT (f)'',
    AI ''3290'' NO_FNC1 (cset_N, 6, 6, no_lint) no_part no_part no_part no_part ''HEIGHT (y)'',
    AI ''3291'' NO_FNC1 (cset_N, 6, 6, no_lint) no_part no_part no_part no_part ''HEIGHT (y)'',
    AI ''3292'' NO_FNC1 (cset_N, 6, 6, no_lint) no_part no_part no_part no_part ''HEIGHT (y)'',
    AI ''3293'' NO_FNC1 (cset_N, 6, 6, no_lint) no_part no_part no_part no_part ''HEIGHT (y)'',
    AI ''3294'' NO_FNC1 (cset_N, 6, 6, no_lint) no_part no_part no_part no_part ''HEIGHT (y)'',
    AI ''3295'' NO_FNC1 (cset_N, 6, 6, no_lint) no_part no_part no_part no_part ''HEIGHT (y)'',
    AI ''3300'' NO_FNC1 (cset_N, 6, 6, no_lint) no_part no_part no_part no_part ''GROSS WEIGHT (kg)'',
    AI ''3301'' NO_FNC1 (cset_N, 6, 6, no_lint) no_part no_part no_part no_part ''GROSS WEIGHT (kg)''
  ]"

definition ai_table_04 :: "aiEntry list" where
  "ai_table_04 = [
    AI ''3302'' NO_FNC1 (cset_N, 6, 6, no_lint) no_part no_part no_part no_part ''GROSS WEIGHT (kg)'',
    AI ''3303'' NO_FNC1 (cset_N, 6, 6, no_lint) no_part no_part no_part no_part ''GROSS WEIGHT (kg)'',
    AI ''3304'' NO_FNC1 (cset_N, 6, 6, no_lint) no_part no_part no_part no_part ''GROSS WEIGHT (kg)'',
    AI ''3305'' NO_FNC1 (cset_N, 6, 6, no_lint) no_part no_part no_part no_part ''GROSS WEIGHT (kg)'',
    AI ''3310'' NO_FNC1 (cset_N, 6, 6, no_lint) no_part no_part no_part no_part ''LENGTH (m), log'',
    AI ''3311'' NO_FNC1 (cset_N, 6, 6, no_lint) no_part no_part no_part no_part ''LENGTH (m), log'',
    AI ''3312'' NO_FNC1 (cset_N, 6, 6, no_lint) no_part no_part no_part no_part ''LENGTH (m), log'',
    AI ''3313'' NO_FNC1 (cset_N, 6, 6, no_lint) no_part no_part no_part no_part ''LENGTH (m), log'',
    AI ''3314'' NO_FNC1 (cset_N, 6, 6, no_lint) no_part no_part no_part no_part ''LENGTH (m), log'',
    AI ''3315'' NO_FNC1 (cset_N, 6, 6, no_lint) no_part no_part no_part no_part ''LENGTH (m), log'',
    AI ''3320'' NO_FNC1 (cset_N, 6, 6, no_lint) no_part no_part no_part no_part ''WIDTH (m), log'',
    AI ''3321'' NO_FNC1 (cset_N, 6, 6, no_lint) no_part no_part no_part no_part ''WIDTH (m), log'',
    AI ''3322'' NO_FNC1 (cset_N, 6, 6, no_lint) no_part no_part no_part no_part ''WIDTH (m), log'',
    AI ''3323'' NO_FNC1 (cset_N, 6, 6, no_lint) no_part no_part no_part no_part ''WIDTH (m), log'',
    AI ''3324'' NO_FNC1 (cset_N, 6, 6, no_lint) no_part no_part no_part no_part ''WIDTH (m), log'',
    AI ''3325'' NO_FNC1 (cset_N, 6, 6, no_lint) no_part no_part no_part no_part ''WIDTH (m), log'',
    AI ''3330'' NO_FNC1 (cset_N, 6, 6, no_lint) no_part no_part no_part no_part ''HEIGHT (m), log'',
    AI ''3331'' NO_FNC1 (cset_N, 6, 6, no_lint) no_part no_part no_part no_part ''HEIGHT (m), log'',
    AI ''3332'' NO_FNC1 (cset_N, 6, 6, no_lint) no_part no_part no_part no_part ''HEIGHT (m), log'',
    AI ''3333'' NO_FNC1 (cset_N, 6, 6, no_lint) no_part no_part no_part no_part ''HEIGHT (m), log'',
    AI ''3334'' NO_FNC1 (cset_N, 6, 6, no_lint) no_part no_part no_part no_part ''HEIGHT (m), log'',
    AI ''3335'' NO_FNC1 (cset_N, 6, 6, no_lint) no_part no_part no_part no_part ''HEIGHT (m), log'',
    AI ''3340'' NO_FNC1 (cset_N, 6, 6, no_lint) no_part no_part no_part no_part ''AREA (m^2), log'',
    AI ''3341'' NO_FNC1 (cset_N, 6, 6, no_lint) no_part no_part no_part no_part ''AREA (m^2), log'',
    AI ''3342'' NO_FNC1 (cset_N, 6, 6, no_lint) no_part no_part no_part no_part ''AREA (m^2), log'',
    AI ''3343'' NO_FNC1 (cset_N, 6, 6, no_lint) no_part no_part no_part no_part ''AREA (m^2), log'',
    AI ''3344'' NO_FNC1 (cset_N, 6, 6, no_lint) no_part no_part no_part no_part ''AREA (m^2), log'',
    AI ''3345'' NO_FNC1 (cset_N, 6, 6, no_lint) no_part no_part no_part no_part ''AREA (m^2), log'',
    AI ''3350'' NO_FNC1 (cset_N, 6, 6, no_lint) no_part no_part no_part no_part ''VOLUME (l), log'',
    AI ''3351'' NO_FNC1 (cset_N, 6, 6, no_lint) no_part no_part no_part no_part ''VOLUME (l), log'',
    AI ''3352'' NO_FNC1 (cset_N, 6, 6, no_lint) no_part no_part no_part no_part ''VOLUME (l), log'',
    AI ''3353'' NO_FNC1 (cset_N, 6, 6, no_lint) no_part no_part no_part no_part ''VOLUME (l), log''
  ]"

definition ai_table_05 :: "aiEntry list" where
  "ai_table_05 = [
    AI ''3354'' NO_FNC1 (cset_N, 6, 6, no_lint) no_part no_part no_part no_part ''VOLUME (l), log'',
    AI ''3355'' NO_FNC1 (cset_N, 6, 6, no_lint) no_part no_part no_part no_part ''VOLUME (l), log'',
    AI ''3360'' NO_FNC1 (cset_N, 6, 6, no_lint) no_part no_part no_part no_part ''VOLUME (m^3), log'',
    AI ''3361'' NO_FNC1 (cset_N, 6, 6, no_lint) no_part no_part no_part no_part ''VOLUME (m^3), log'',
    AI ''3362'' NO_FNC1 (cset_N, 6, 6, no_lint) no_part no_part no_part no_part ''VOLUME (m^3), log'',
    AI ''3363'' NO_FNC1 (cset_N, 6, 6, no_lint) no_part no_part no_part no_part ''VOLUME (m^3), log'',
    AI ''3364'' NO_FNC1 (cset_N, 6, 6, no_lint) no_part no_part no_part no_part ''VOLUME (m^3), log'',
    AI ''3365'' NO_FNC1 (cset_N, 6, 6, no_lint) no_part no_part no_part no_part ''VOLUME (m^3), log'',
    AI ''3370'' NO_FNC1 (cset_N, 6, 6, no_lint) no_part no_part no_part no_part ''KG PER m^2'',
    AI ''3371'' NO_FNC1 (cset_N, 6, 6, no_lint) no_part no_part no_part no_part ''KG PER m^2'',
    AI ''3372'' NO_FNC1 (cset_N, 6, 6, no_lint) no_part no_part no_part no_part ''KG PER m^2'',
    AI ''3373'' NO_FNC1 (cset_N, 6, 6, no_lint) no_part no_part no_part no_part ''KG PER m^2'',
    AI ''3374'' NO_FNC1 (cset_N, 6, 6, no_lint) no_part no_part no_part no_part ''KG PER m^2'',
    AI ''3375'' NO_FNC1 (cset_N, 6, 6, no_lint) no_part no_part no_part no_part ''KG PER m^2'',
    AI ''3400'' NO_FNC1 (cset_N, 6, 6, no_lint) no_part no_part no_part no_part ''GROSS WEIGHT (lb)'',
    AI ''3401'' NO_FNC1 (cset_N, 6, 6, no_lint) no_part no_part no_part no_part ''GROSS WEIGHT (lb)'',
    AI ''3402'' NO_FNC1 (cset_N, 6, 6, no_lint) no_part no_part no_part no_part ''GROSS WEIGHT (lb)'',
    AI ''3403'' NO_FNC1 (cset_N, 6, 6, no_lint) no_part no_part no_part no_part ''GROSS WEIGHT (lb)'',
    AI ''3404'' NO_FNC1 (cset_N, 6, 6, no_lint) no_part no_part no_part no_part ''GROSS WEIGHT (lb)'',
    AI ''3405'' NO_FNC1 (cset_N, 6, 6, no_lint) no_part no_part no_part no_part ''GROSS WEIGHT (lb)'',
    AI ''3410'' NO_FNC1 (cset_N, 6, 6, no_lint) no_part no_part no_part no_part ''LENGTH (i), log'',
    AI ''3411'' NO_FNC1 (cset_N, 6, 6, no_lint) no_part no_part no_part no_part ''LENGTH (i), log'',
    AI ''3412'' NO_FNC1 (cset_N, 6, 6, no_lint) no_part no_part no_part no_part ''LENGTH (i), log'',
    AI ''3413'' NO_FNC1 (cset_N, 6, 6, no_lint) no_part no_part no_part no_part ''LENGTH (i), log'',
    AI ''3414'' NO_FNC1 (cset_N, 6, 6, no_lint) no_part no_part no_part no_part ''LENGTH (i), log'',
    AI ''3415'' NO_FNC1 (cset_N, 6, 6, no_lint) no_part no_part no_part no_part ''LENGTH (i), log'',
    AI ''3420'' NO_FNC1 (cset_N, 6, 6, no_lint) no_part no_part no_part no_part ''LENGTH (f), log'',
    AI ''3421'' NO_FNC1 (cset_N, 6, 6, no_lint) no_part no_part no_part no_part ''LENGTH (f), log'',
    AI ''3422'' NO_FNC1 (cset_N, 6, 6, no_lint) no_part no_part no_part no_part ''LENGTH (f), log'',
    AI ''3423'' NO_FNC1 (cset_N, 6, 6, no_lint) no_part no_part no_part no_part ''LENGTH (f), log'',
    AI ''3424'' NO_FNC1 (cset_N, 6, 6, no_lint) no_part no_part no_part no_part ''LENGTH (f), log'',
    AI ''3425'' NO_FNC1 (cset_N, 6, 6, no_lint) no_part no_part no_part no_part ''LENGTH (f), log''
  ]"

definition ai_table_06 :: "aiEntry list" where
  "ai_table_06 = [
    AI ''3430'' NO_FNC1 (cset_N, 6, 6, no_lint) no_part no_part no_part no_part ''LENGTH (y), log'',
    AI ''3431'' NO_FNC1 (cset_N, 6, 6, no_lint) no_part no_part no_part no_part ''LENGTH (y), log'',
    AI ''3432'' NO_FNC1 (cset_N, 6, 6, no_lint) no_part no_part no_part no_part ''LENGTH (y), log'',
    AI ''3433'' NO_FNC1 (cset_N, 6, 6, no_lint) no_part no_part no_part no_part ''LENGTH (y), log'',
    AI ''3434'' NO_FNC1 (cset_N, 6, 6, no_lint) no_part no_part no_part no_part ''LENGTH (y), log'',
    AI ''3435'' NO_FNC1 (cset_N, 6, 6, no_lint) no_part no_part no_part no_part ''LENGTH (y), log'',
    AI ''3440'' NO_FNC1 (cset_N, 6, 6, no_lint) no_part no_part no_part no_part ''WIDTH (i), log'',
    AI ''3441'' NO_FNC1 (cset_N, 6, 6, no_lint) no_part no_part no_part no_part ''WIDTH (i), log'',
    AI ''3442'' NO_FNC1 (cset_N, 6, 6, no_lint) no_part no_part no_part no_part ''WIDTH (i), log'',
    AI ''3443'' NO_FNC1 (cset_N, 6, 6, no_lint) no_part no_part no_part no_part ''WIDTH (i), log'',
    AI ''3444'' NO_FNC1 (cset_N, 6, 6, no_lint) no_part no_part no_part no_part ''WIDTH (i), log'',
    AI ''3445'' NO_FNC1 (cset_N, 6, 6, no_lint) no_part no_part no_part no_part ''WIDTH (i), log'',
    AI ''3450'' NO_FNC1 (cset_N, 6, 6, no_lint) no_part no_part no_part no_part ''WIDTH (f), log'',
    AI ''3451'' NO_FNC1 (cset_N, 6, 6, no_lint) no_part no_part no_part no_part ''WIDTH (f), log'',
    AI ''3452'' NO_FNC1 (cset_N, 6, 6, no_lint) no_part no_part no_part no_part ''WIDTH (f), log'',
    AI ''3453'' NO_FNC1 (cset_N, 6, 6, no_lint) no_part no_part no_part no_part ''WIDTH (f), log'',
    AI ''3454'' NO_FNC1 (cset_N, 6, 6, no_lint) no_part no_part no_part no_part ''WIDTH (f), log'',
    AI ''3455'' NO_FNC1 (cset_N, 6, 6, no_lint) no_part no_part no_part no_part ''WIDTH (f), log'',
    AI ''3460'' NO_FNC1 (cset_N, 6, 6, no_lint) no_part no_part no_part no_part ''WIDTH (y), log'',
    AI ''3461'' NO_FNC1 (cset_N, 6, 6, no_lint) no_part no_part no_part no_part ''WIDTH (y), log'',
    AI ''3462'' NO_FNC1 (cset_N, 6, 6, no_lint) no_part no_part no_part no_part ''WIDTH (y), log'',
    AI ''3463'' NO_FNC1 (cset_N, 6, 6, no_lint) no_part no_part no_part no_part ''WIDTH (y), log'',
    AI ''3464'' NO_FNC1 (cset_N, 6, 6, no_lint) no_part no_part no_part no_part ''WIDTH (y), log'',
    AI ''3465'' NO_FNC1 (cset_N, 6, 6, no_lint) no_part no_part no_part no_part ''WIDTH (y), log'',
    AI ''3470'' NO_FNC1 (cset_N, 6, 6, no_lint) no_part no_part no_part no_part ''HEIGHT (i), log'',
    AI ''3471'' NO_FNC1 (cset_N, 6, 6, no_lint) no_part no_part no_part no_part ''HEIGHT (i), log'',
    AI ''3472'' NO_FNC1 (cset_N, 6, 6, no_lint) no_part no_part no_part no_part ''HEIGHT (i), log'',
    AI ''3473'' NO_FNC1 (cset_N, 6, 6, no_lint) no_part no_part no_part no_part ''HEIGHT (i), log'',
    AI ''3474'' NO_FNC1 (cset_N, 6, 6, no_lint) no_part no_part no_part no_part ''HEIGHT (i), log'',
    AI ''3475'' NO_FNC1 (cset_N, 6, 6, no_lint) no_part no_part no_part no_part ''HEIGHT (i), log'',
    AI ''3480'' NO_FNC1 (cset_N, 6, 6, no_lint) no_part no_part no_part no_part ''HEIGHT (f), log'',
    AI ''3481'' NO_FNC1 (cset_N, 6, 6, no_lint) no_part no_part no_part no_part ''HEIGHT (f), log''
  ]"

definition ai_table_07 :: "aiEntry list" where
  "ai_table_07 = [
    AI ''3482'' NO_FNC1 (cset_N, 6, 6, no_lint) no_part no_part no_part no_part ''HEIGHT (f), log'',
    AI ''3483'' NO_FNC1 (cset_N, 6, 6, no_lint) no_part no_part no_part no_part ''HEIGHT (f), log'',
    AI ''3484'' NO_FNC1 (cset_N, 6, 6, no_lint) no_part no_part no_part no_part ''HEIGHT (f), log'',
    AI ''3485'' NO_FNC1 (cset_N, 6, 6, no_lint) no_part no_part no_part no_part ''HEIGHT (f), log'',
    AI ''3490'' NO_FNC1 (cset_N, 6, 6, no_lint) no_part no_part no_part no_part ''HEIGHT (y), log'',
    AI ''3491'' NO_FNC1 (cset_N, 6, 6, no_lint) no_part no_part no_part no_part ''HEIGHT (y), log'',
    AI ''3492'' NO_FNC1 (cset_N, 6, 6, no_lint) no_part no_part no_part no_part ''HEIGHT (y), log'',
    AI ''3493'' NO_FNC1 (cset_N, 6, 6, no_lint) no_part no_part no_part no_part ''HEIGHT (y), log'',
    AI ''3494'' NO_FNC1 (cset_N, 6, 6, no_lint) no_part no_part no_part no_part ''HEIGHT (y), log'',
    AI ''3495'' NO_FNC1 (cset_N, 6, 6, no_lint) no_part no_part no_part no_part ''HEIGHT (y), log'',
    AI ''3500'' NO_FNC1 (cset_N, 6, 6, no_lint) no_part no_part no_part no_part ''AREA (i^2)'',
    AI ''3501'' NO_FNC1 (cset_N, 6, 6, no_lint) no_part no_part no_part no_part ''AREA (i^2)'',
    AI ''3502'' NO_FNC1 (cset_N, 6, 6, no_lint) no_part no_part no_part no_part ''AREA (i^2)'',
    AI ''3503'' NO_FNC1 (cset_N, 6, 6, no_lint) no_part no_part no_part no_part ''AREA (i^2)'',
    AI ''3504'' NO_FNC1 (cset_N, 6, 6, no_lint) no_part no_part no_part no_part ''AREA (i^2)'',
    AI ''3505'' NO_FNC1 (cset_N, 6, 6, no_lint) no_part no_part no_part no_part ''AREA (i^2)'',
    AI ''3510'' NO_FNC1 (cset_N, 6, 6, no_lint) no_part no_part no_part no_part ''AREA (f^2)'',
    AI ''3511'' NO_FNC1 (cset_N, 6, 6, no_lint) no_part no_part no_part no_part ''AREA (f^2)'',
    AI ''3512'' NO_FNC1 (cset_N, 6, 6, no_lint) no_part no_part no_part no_part ''AREA (f^2)'',
    AI ''3513'' NO_FNC1 (cset_N, 6, 6, no_lint) no_part no_part no_part no_part ''AREA (f^2)'',
    AI ''3514'' NO_FNC1 (cset_N, 6, 6, no_lint) no_part no_part no_part no_part ''AREA (f^2)'',
    AI ''3515'' NO_FNC1 (cset_N, 6, 6, no_lint) no_part no_part no_part no_part ''AREA (f^2)'',
    AI ''3520'' NO_FNC1 (cset_N, 6, 6, no_lint) no_part no_part no_part no_part ''AREA (y^2)'',
    AI ''3521'' NO_FNC1 (cset_N, 6, 6, no_lint) no_part no_part no_part no_part ''AREA (y^2)'',
    AI ''3522'' NO_FNC1 (cset_N, 6, 6, no_lint) no_part no_part no_part no_part ''AREA (y^2)'',
    AI ''3523'' NO_FNC1 (cset_N, 6, 6, no_lint) no_part no_part no_part no_part ''AREA (y^2)'',
    AI ''3524'' NO_FNC1 (cset_N, 6, 6, no_lint) no_part no_part no_part no_part ''AREA (y^2)'',
    AI ''3525'' NO_FNC1 (cset_N, 6, 6, no_lint) no_part no_part no_part no_part ''AREA (y^2)'',
    AI ''3530'' NO_FNC1 (cset_N, 6, 6, no_lint) no_part no_part no_part no_part ''AREA (i^2), log'',
    AI ''3531'' NO_FNC1 (cset_N, 6, 6, no_lint) no_part no_part no_part no_part ''AREA (i^2), log'',
    AI ''3532'' NO_FNC1 (cset_N, 6, 6, no_lint) no_part no_part no_part no_part ''AREA (i^2), log'',
    AI ''3533'' NO_FNC1 (cset_N, 6, 6, no_lint) no_part no_part no_part no_part ''AREA (i^2), log''
  ]"

definition ai_table_08 :: "aiEntry list" where
  "ai_table_08 = [
    AI ''3534'' NO_FNC1 (cset_N, 6, 6, no_lint) no_part no_part no_part no_part ''AREA (i^2), log'',
    AI ''3535'' NO_FNC1 (cset_N, 6, 6, no_lint) no_part no_part no_part no_part ''AREA (i^2), log'',
    AI ''3540'' NO_FNC1 (cset_N, 6, 6, no_lint) no_part no_part no_part no_part ''AREA (f^2), log'',
    AI ''3541'' NO_FNC1 (cset_N, 6, 6, no_lint) no_part no_part no_part no_part ''AREA (f^2), log'',
    AI ''3542'' NO_FNC1 (cset_N, 6, 6, no_lint) no_part no_part no_part no_part ''AREA (f^2), log'',
    AI ''3543'' NO_FNC1 (cset_N, 6, 6, no_lint) no_part no_part no_part no_part ''AREA (f^2), log'',
    AI ''3544'' NO_FNC1 (cset_N, 6, 6, no_lint) no_part no_part no_part no_part ''AREA (f^2), log'',
    AI ''3545'' NO_FNC1 (cset_N, 6, 6, no_lint) no_part no_part no_part no_part ''AREA (f^2), log'',
    AI ''3550'' NO_FNC1 (cset_N, 6, 6, no_lint) no_part no_part no_part no_part ''AREA (y^2), log'',
    AI ''3551'' NO_FNC1 (cset_N, 6, 6, no_lint) no_part no_part no_part no_part ''AREA (y^2), log'',
    AI ''3552'' NO_FNC1 (cset_N, 6, 6, no_lint) no_part no_part no_part no_part ''AREA (y^2), log'',
    AI ''3553'' NO_FNC1 (cset_N, 6, 6, no_lint) no_part no_part no_part no_part ''AREA (y^2), log'',
    AI ''3554'' NO_FNC1 (cset_N, 6, 6, no_lint) no_part no_part no_part no_part ''AREA (y^2), log'',
    AI ''3555'' NO_FNC1 (cset_N, 6, 6, no_lint) no_part no_part no_part no_part ''AREA (y^2), log'',
    AI ''3560'' NO_FNC1 (cset_N, 6, 6, no_lint) no_part no_part no_part no_part ''NET WEIGHT (t)'',
    AI ''3561'' NO_FNC1 (cset_N, 6, 6, no_lint) no_part no_part no_part no_part ''NET WEIGHT (t)'',
    AI ''3562'' NO_FNC1 (cset_N, 6, 6, no_lint) no_part no_part no_part no_part ''NET WEIGHT (t)'',
    AI ''3563'' NO_FNC1 (cset_N, 6, 6, no_lint) no_part no_part no_part no_part ''NET WEIGHT (t)'',
    AI ''3564'' NO_FNC1 (cset_N, 6, 6, no_lint) no_part no_part no_part no_part ''NET WEIGHT (t)'',
    AI ''3565'' NO_FNC1 (cset_N, 6, 6, no_lint) no_part no_part no_part no_part ''NET WEIGHT (t)'',
    AI ''3570'' NO_FNC1 (cset_N, 6, 6, no_lint) no_part no_part no_part no_part ''NET VOLUME (oz)'',
    AI ''3571'' NO_FNC1 (cset_N, 6, 6, no_lint) no_part no_part no_part no_part ''NET VOLUME (oz)'',
    AI ''3572'' NO_FNC1 (cset_N, 6, 6, no_lint) no_part no_part no_part no_part ''NET VOLUME (oz)'',
    AI ''3573'' NO_FNC1 (cset_N, 6, 6, no_lint) no_part no_part no_part no_part ''NET VOLUME (oz)'',
    AI ''3574'' NO_FNC1 (cset_N, 6, 6, no_lint) no_part no_part no_part no_part ''NET VOLUME (oz)'',
    AI ''3575'' NO_FNC1 (cset_N, 6, 6, no_lint) no_part no_part no_part no_part ''NET VOLUME (oz)'',
    AI ''3600'' NO_FNC1 (cset_N, 6, 6, no_lint) no_part no_part no_part no_part ''NET VOLUME (q)'',
    AI ''3601'' NO_FNC1 (cset_N, 6, 6, no_lint) no_part no_part no_part no_part ''NET VOLUME (q)'',
    AI ''3602'' NO_FNC1 (cset_N, 6, 6, no_lint) no_part no_part no_part no_part ''NET VOLUME (q)'',
    AI ''3603'' NO_FNC1 (cset_N, 6, 6, no_lint) no_part no_part no_part no_part ''NET VOLUME (q)'',
    AI ''3604'' NO_FNC1 (cset_N, 6, 6, no_lint) no_part no_part no_part no_part ''NET VOLUME (q)'',
    AI ''3605'' NO_FNC1 (cset_N, 6, 6, no_lint) no_part no_part no_part no_part ''NET VOLUME (q)''
  ]"

definition ai_table_09 :: "aiEntry list" where
  "ai_table_09 = [
    AI ''3610'' NO_FNC1 (cset_N, 6, 6, no_lint) no_part no_part no_part no_part ''NET VOLUME (g)'',
    AI ''3611'' NO_FNC1 (cset_N, 6, 6, no_lint) no_part no_part no_part no_part ''NET VOLUME (g)'',
    AI ''3612'' NO_FNC1 (cset_N, 6, 6, no_lint) no_part no_part no_part no_part ''NET VOLUME (g)'',
    AI ''3613'' NO_FNC1 (cset_N, 6, 6, no_lint) no_part no_part no_part no_part ''NET VOLUME (g)'',
    AI ''3614'' NO_FNC1 (cset_N, 6, 6, no_lint) no_part no_part no_part no_part ''NET VOLUME (g)'',
    AI ''3615'' NO_FNC1 (cset_N, 6, 6, no_lint) no_part no_part no_part no_part ''NET VOLUME (g)'',
    AI ''3620'' NO_FNC1 (cset_N, 6, 6, no_lint) no_part no_part no_part no_part ''VOLUME (q), log'',
    AI ''3621'' NO_FNC1 (cset_N, 6, 6, no_lint) no_part no_part no_part no_part ''VOLUME (q), log'',
    AI ''3622'' NO_FNC1 (cset_N, 6, 6, no_lint) no_part no_part no_part no_part ''VOLUME (q), log'',
    AI ''3623'' NO_FNC1 (cset_N, 6, 6, no_lint) no_part no_part no_part no_part ''VOLUME (q), log'',
    AI ''3624'' NO_FNC1 (cset_N, 6, 6, no_lint) no_part no_part no_part no_part ''VOLUME (q), log'',
    AI ''3625'' NO_FNC1 (cset_N, 6, 6, no_lint) no_part no_part no_part no_part ''VOLUME (q), log'',
    AI ''3630'' NO_FNC1 (cset_N, 6, 6, no_lint) no_part no_part no_part no_part ''VOLUME (g), log'',
    AI ''3631'' NO_FNC1 (cset_N, 6, 6, no_lint) no_part no_part no_part no_part ''VOLUME (g), log'',
    AI ''3632'' NO_FNC1 (cset_N, 6, 6, no_lint) no_part no_part no_part no_part ''VOLUME (g), log'',
    AI ''3633'' NO_FNC1 (cset_N, 6, 6, no_lint) no_part no_part no_part no_part ''VOLUME (g), log'',
    AI ''3634'' NO_FNC1 (cset_N, 6, 6, no_lint) no_part no_part no_part no_part ''VOLUME (g), log'',
    AI ''3635'' NO_FNC1 (cset_N, 6, 6, no_lint) no_part no_part no_part no_part ''VOLUME (g), log'',
    AI ''3640'' NO_FNC1 (cset_N, 6, 6, no_lint) no_part no_part no_part no_part ''VOLUME (i^3)'',
    AI ''3641'' NO_FNC1 (cset_N, 6, 6, no_lint) no_part no_part no_part no_part ''VOLUME (i^3)'',
    AI ''3642'' NO_FNC1 (cset_N, 6, 6, no_lint) no_part no_part no_part no_part ''VOLUME (i^3)'',
    AI ''3643'' NO_FNC1 (cset_N, 6, 6, no_lint) no_part no_part no_part no_part ''VOLUME (i^3)'',
    AI ''3644'' NO_FNC1 (cset_N, 6, 6, no_lint) no_part no_part no_part no_part ''VOLUME (i^3)'',
    AI ''3645'' NO_FNC1 (cset_N, 6, 6, no_lint) no_part no_part no_part no_part ''VOLUME (i^3)'',
    AI ''3650'' NO_FNC1 (cset_N, 6, 6, no_lint) no_part no_part no_part no_part ''VOLUME (f^3)'',
    AI ''3651'' NO_FNC1 (cset_N, 6, 6, no_lint) no_part no_part no_part no_part ''VOLUME (f^3)'',
    AI ''3652'' NO_FNC1 (cset_N, 6, 6, no_lint) no_part no_part no_part no_part ''VOLUME (f^3)'',
    AI ''3653'' NO_FNC1 (cset_N, 6, 6, no_lint) no_part no_part no_part no_part ''VOLUME (f^3)'',
    AI ''3654'' NO_FNC1 (cset_N, 6, 6, no_lint) no_part no_part no_part no_part ''VOLUME (f^3)'',
    AI ''3655'' NO_FNC1 (cset_N, 6, 6, no_lint) no_part no_part no_part no_part ''VOLUME (f^3)'',
    AI ''3660'' NO_FNC1 (cset_N, 6, 6, no_lint) no_part no_part no_part no_part ''VOLUME (y^3)'',
    AI ''3661'' NO_FNC1 (cset_N, 6, 6, no_lint) no_part no_part no_part no_part ''VOLUME (y^3)''
  ]"

definition ai_table_10 :: "aiEntry list" where
  "ai_table_10 = [
    AI ''3662'' NO_FNC1 (cset_N, 6, 6, no_lint) no_part no_part no_part no_part ''VOLUME (y^3)'',
    AI ''3663'' NO_FNC1 (cset_N, 6, 6, no_lint) no_part no_part no_part no_part ''VOLUME (y^3)'',
    AI ''3664'' NO_FNC1 (cset_N, 6, 6, no_lint) no_part no_part no_part no_part ''VOLUME (y^3)'',
    AI ''3665'' NO_FNC1 (cset_N, 6, 6, no_lint) no_part no_part no_part no_part ''VOLUME (y^3)'',
    AI ''3670'' NO_FNC1 (cset_N, 6, 6, no_lint) no_part no_part no_part no_part ''VOLUME (i^3), log'',
    AI ''3671'' NO_FNC1 (cset_N, 6, 6, no_lint) no_part no_part no_part no_part ''VOLUME (i^3), log'',
    AI ''3672'' NO_FNC1 (cset_N, 6, 6, no_lint) no_part no_part no_part no_part ''VOLUME (i^3), log'',
    AI ''3673'' NO_FNC1 (cset_N, 6, 6, no_lint) no_part no_part no_part no_part ''VOLUME (i^3), log'',
    AI ''3674'' NO_FNC1 (cset_N, 6, 6, no_lint) no_part no_part no_part no_part ''VOLUME (i^3), log'',
    AI ''3675'' NO_FNC1 (cset_N, 6, 6, no_lint) no_part no_part no_part no_part ''VOLUME (i^3), log'',
    AI ''3680'' NO_FNC1 (cset_N, 6, 6, no_lint) no_part no_part no_part no_part ''VOLUME (f^3), log'',
    AI ''3681'' NO_FNC1 (cset_N, 6, 6, no_lint) no_part no_part no_part no_part ''VOLUME (f^3), log'',
    AI ''3682'' NO_FNC1 (cset_N, 6, 6, no_lint) no_part no_part no_part no_part ''VOLUME (f^3), log'',
    AI ''3683'' NO_FNC1 (cset_N, 6, 6, no_lint) no_part no_part no_part no_part ''VOLUME (f^3), log'',
    AI ''3684'' NO_FNC1 (cset_N, 6, 6, no_lint) no_part no_part no_part no_part ''VOLUME (f^3), log'',
    AI ''3685'' NO_FNC1 (cset_N, 6, 6, no_lint) no_part no_part no_part no_part ''VOLUME (f^3), log'',
    AI ''3690'' NO_FNC1 (cset_N, 6, 6, no_lint) no_part no_part no_part no_part ''VOLUME (y^3), log'',
    AI ''3691'' NO_FNC1 (cset_N, 6, 6, no_lint) no_part no_part no_part no_part ''VOLUME (y^3), log'',
    AI ''3692'' NO_FNC1 (cset_N, 6, 6, no_lint) no_part no_part no_part no_part ''VOLUME (y^3), log'',
    AI ''3693'' NO_FNC1 (cset_N, 6, 6, no_lint) no_part no_part no_part no_part ''VOLUME (y^3), log'',
    AI ''3694'' NO_FNC1 (cset_N, 6, 6, no_lint) no_part no_part no_part no_part ''VOLUME (y^3), log'',
    AI ''3695'' NO_FNC1 (cset_N, 6, 6, no_lint) no_part no_part no_part no_part ''VOLUME (y^3), log'',
    AI ''37'' FNC1 (cset_N, 1, 8, no_lint) no_part no_part no_part no_part ''COUNT'',
    AI ''3900'' FNC1 (cset_N, 1, 15, no_lint) no_part no_part no_part no_part ''AMOUNT'',
    AI ''3901'' FNC1 (cset_N, 1, 15, no_lint) no_part no_part no_part no_part ''AMOUNT'',
    AI ''3902'' FNC1 (cset_N, 1, 15, no_lint) no_part no_part no_part no_part ''AMOUNT'',
    AI ''3903'' FNC1 (cset_N, 1, 15, no_lint) no_part no_part no_part no_part ''AMOUNT'',
    AI ''3904'' FNC1 (cset_N, 1, 15, no_lint) no_part no_part no_part no_part ''AMOUNT'',
    AI ''3905'' FNC1 (cset_N, 1, 15, no_lint) no_part no_part no_part no_part ''AMOUNT'',
    AI ''3906'' FNC1 (cset_N, 1, 15, no_lint) no_part no_part no_part no_part ''AMOUNT'',
    AI ''3907'' FNC1 (cset_N, 1, 15, no_lint) no_part no_part no_part no_part ''AMOUNT'',
    AI ''3908'' FNC1 (cset_N, 1, 15, no_lint) no_part no_part no_part no_part ''AMOUNT''
  ]"

definition ai_table_11 :: "aiEntry list" where
  "ai_table_11 = [
    AI ''3909'' FNC1 (cset_N, 1, 15, no_lint) no_part no_part no_part no_part ''AMOUNT'',
    AI ''3910'' FNC1 (cset_N, 3, 3, no_lint) (cset_N, 1, 15, no_lint) no_part no_part no_part ''AMOUNT'',
    AI ''3911'' FNC1 (cset_N, 3, 3, no_lint) (cset_N, 1, 15, no_lint) no_part no_part no_part ''AMOUNT'',
    AI ''3912'' FNC1 (cset_N, 3, 3, no_lint) (cset_N, 1, 15, no_lint) no_part no_part no_part ''AMOUNT'',
    AI ''3913'' FNC1 (cset_N, 3, 3, no_lint) (cset_N, 1, 15, no_lint) no_part no_part no_part ''AMOUNT'',
    AI ''3914'' FNC1 (cset_N, 3, 3, no_lint) (cset_N, 1, 15, no_lint) no_part no_part no_part ''AMOUNT'',
    AI ''3915'' FNC1 (cset_N, 3, 3, no_lint) (cset_N, 1, 15, no_lint) no_part no_part no_part ''AMOUNT'',
    AI ''3916'' FNC1 (cset_N, 3, 3, no_lint) (cset_N, 1, 15, no_lint) no_part no_part no_part ''AMOUNT'',
    AI ''3917'' FNC1 (cset_N, 3, 3, no_lint) (cset_N, 1, 15, no_lint) no_part no_part no_part ''AMOUNT'',
    AI ''3918'' FNC1 (cset_N, 3, 3, no_lint) (cset_N, 1, 15, no_lint) no_part no_part no_part ''AMOUNT'',
    AI ''3919'' FNC1 (cset_N, 3, 3, no_lint) (cset_N, 1, 15, no_lint) no_part no_part no_part ''AMOUNT'',
    AI ''3920'' FNC1 (cset_N, 1, 15, no_lint) no_part no_part no_part no_part ''PRICE'',
    AI ''3921'' FNC1 (cset_N, 1, 15, no_lint) no_part no_part no_part no_part ''PRICE'',
    AI ''3922'' FNC1 (cset_N, 1, 15, no_lint) no_part no_part no_part no_part ''PRICE'',
    AI ''3923'' FNC1 (cset_N, 1, 15, no_lint) no_part no_part no_part no_part ''PRICE'',
    AI ''3924'' FNC1 (cset_N, 1, 15, no_lint) no_part no_part no_part no_part ''PRICE'',
    AI ''3925'' FNC1 (cset_N, 1, 15, no_lint) no_part no_part no_part no_part ''PRICE'',
    AI ''3926'' FNC1 (cset_N, 1, 15, no_lint) no_part no_part no_part no_part ''PRICE'',
    AI ''3927'' FNC1 (cset_N, 1, 15, no_lint) no_part no_part no_part no_part ''PRICE'',
    AI ''3928'' FNC1 (cset_N, 1, 15, no_lint) no_part no_part no_part no_part ''PRICE'',
    AI ''3929'' FNC1 (cset_N, 1, 15, no_lint) no_part no_part no_part no_part ''PRICE'',
    AI ''3930'' FNC1 (cset_N, 3, 3, no_lint) (cset_N, 1, 15, no_lint) no_part no_part no_part ''PRICE'',
    AI ''3931'' FNC1 (cset_N, 3, 3, no_lint) (cset_N, 1, 15, no_lint) no_part no_part no_part ''PRICE'',
    AI ''3932'' FNC1 (cset_N, 3, 3, no_lint) (cset_N, 1, 15, no_lint) no_part no_part no_part ''PRICE'',
    AI ''3933'' FNC1 (cset_N, 3, 3, no_lint) (cset_N, 1, 15, no_lint) no_part no_part no_part ''PRICE'',
    AI ''3934'' FNC1 (cset_N, 3, 3, no_lint) (cset_N, 1, 15, no_lint) no_part no_part no_part ''PRICE'',
    AI ''3935'' FNC1 (cset_N, 3, 3, no_lint) (cset_N, 1, 15, no_lint) no_part no_part no_part ''PRICE'',
    AI ''3936'' FNC1 (cset_N, 3, 3, no_lint) (cset_N, 1, 15, no_lint) no_part no_part no_part ''PRICE'',
    AI ''3937'' FNC1 (cset_N, 3, 3, no_lint) (cset_N, 1, 15, no_lint) no_part no_part no_part ''PRICE'',
    AI ''3938'' FNC1 (cset_N, 3, 3, no_lint) (cset_N, 1, 15, no_lint) no_part no_part no_part ''PRICE'',
    AI ''3939'' FNC1 (cset_N, 3, 3, no_lint) (cset_N, 1, 15, no_lint) no_part no_part no_part ''PRICE'',
    AI ''3940'' FNC1 (cset_N, 4, 4, no_lint) no_part no_part no_part no_part ''PRCNT OFF''
  ]"

definition ai_table_12 :: "aiEntry list" where
  "ai_table_12 = [
    AI ''3941'' FNC1 (cset_N, 4, 4, no_lint) no_part no_part no_part no_part ''PRCNT OFF'',
    AI ''3942'' FNC1 (cset_N, 4, 4, no_lint) no_part no_part no_part no_part ''PRCNT OFF'',
    AI ''3943'' FNC1 (cset_N, 4, 4, no_lint) no_part no_part no_part no_part ''PRCNT OFF'',
    AI ''3950'' FNC1 (cset_N, 6, 6, no_lint) no_part no_part no_part no_part ''PRICE/UoM'',
    AI ''3951'' FNC1 (cset_N, 6, 6, no_lint) no_part no_part no_part no_part ''PRICE/UoM'',
    AI ''3952'' FNC1 (cset_N, 6, 6, no_lint) no_part no_part no_part no_part ''PRICE/UoM'',
    AI ''3953'' FNC1 (cset_N, 6, 6, no_lint) no_part no_part no_part no_part ''PRICE/UoM'',
    AI ''3954'' FNC1 (cset_N, 6, 6, no_lint) no_part no_part no_part no_part ''PRICE/UoM'',
    AI ''3955'' FNC1 (cset_N, 6, 6, no_lint) no_part no_part no_part no_part ''PRICE/UoM'',
    AI ''400'' FNC1 (cset_X, 1, 30, no_lint) no_part no_part no_part no_part ''ORDER NUMBER'',
    AI ''401'' FNC1 (cset_X, 1, 30, no_lint) no_part no_part no_part no_part ''GINC'',
    AI ''402'' FNC1 (cset_N, 17, 17, csum) no_part no_part no_part no_part ''GSIN'',
    AI ''403'' FNC1 (cset_X, 1, 30, no_lint) no_part no_part no_part no_part ''ROUTE'',
    AI ''410'' NO_FNC1 (cset_N, 13, 13, csum) no_part no_part no_part no_part ''SHIP TO LOC'',
    AI ''411'' NO_FNC1 (cset_N, 13, 13, csum) no_part no_part no_part no_part ''BILL TO'',
    AI ''412'' NO_FNC1 (cset_N, 13, 13, csum) no_part no_part no_part no_part ''PURCHASE FROM'',
    AI ''413'' NO_FNC1 (cset_N, 13, 13, csum) no_part no_part no_part no_part ''SHIP FOR LOC'',
    AI ''414'' NO_FNC1 (cset_N, 13, 13, csum) no_part no_part no_part no_part ''LOC NO.'',
    AI ''415'' NO_FNC1 (cset_N, 13, 13, csum) no_part no_part no_part no_part ''PAY TO'',
    AI ''416'' NO_FNC1 (cset_N, 13, 13, csum) no_part no_part no_part no_part ''PROD/SERV LOC'',
    AI ''417'' NO_FNC1 (cset_N, 13, 13, csum) no_part no_part no_part no_part ''PARTY'',
    AI ''420'' FNC1 (cset_X, 1, 20, no_lint) no_part no_part no_part no_part ''SHIP TO POST'',
    AI ''421'' FNC1 (cset_N, 3, 3, no_lint) (cset_X, 1, 9, no_lint) no_part no_part no_part ''SHIP TO POST'',
    AI ''422'' FNC1 (cset_N, 3, 3, no_lint) no_part no_part no_part no_part ''ORIGIN'',
    AI ''423'' FNC1 (cset_N, 3, 15, no_lint) no_part no_part no_part no_part ''COUNTRY - INITIAL PROCESS'',
    AI ''424'' FNC1 (cset_N, 3, 3, no_lint) no_part no_part no_part no_part ''COUNTRY - PROCESS'',
    AI ''425'' FNC1 (cset_N, 3, 15, no_lint) no_part no_part no_part no_part ''COUNTRY - DISASSEMBLY'',
    AI ''426'' FNC1 (cset_N, 3, 3, no_lint) no_part no_part no_part no_part ''COUNTRY - FULL PROCESS'',
    AI ''427'' FNC1 (cset_X, 1, 3, no_lint) no_part no_part no_part no_part ''ORIGIN SUBDIVISION'',
    AI ''4300'' FNC1 (cset_X, 1, 35, no_lint) no_part no_part no_part no_part ''SHIP TO COMP'',
    AI ''4301'' FNC1 (cset_X, 1, 35, no_lint) no_part no_part no_part no_part ''SHIP TO NAME'',
    AI ''4302'' FNC1 (cset_X, 1, 70, no_lint) no_part no_part no_part no_part ''SHIP TO ADD1''
  ]"

definition ai_table_13 :: "aiEntry list" where
  "ai_table_13 = [
    AI ''4303'' FNC1 (cset_X, 1, 70, no_lint) no_part no_part no_part no_part ''SHIP TO ADD2'',
    AI ''4304'' FNC1 (cset_X, 1, 70, no_lint) no_part no_part no_part no_part ''SHIP TO SUB'',
    AI ''4305'' FNC1 (cset_X, 1, 70, no_lint) no_part no_part no_part no_part ''SHIP TO LOC'',
    AI ''4306'' FNC1 (cset_X, 1, 70, no_lint) no_part no_part no_part no_part ''SHIP TO REG'',
    AI ''4307'' FNC1 (cset_X, 2, 2, no_lint) no_part no_part no_part no_part ''SHIP TO COUNTRY'',
    AI ''4308'' FNC1 (cset_X, 1, 30, no_lint) no_part no_part no_part no_part ''SHIP TO PHONE'',
    AI ''4310'' FNC1 (cset_X, 1, 35, no_lint) no_part no_part no_part no_part ''RTN TO COMP'',
    AI ''4311'' FNC1 (cset_X, 1, 35, no_lint) no_part no_part no_part no_part ''RTN TO NAME'',
    AI ''4312'' FNC1 (cset_X, 1, 70, no_lint) no_part no_part no_part no_part ''RTN TO ADD1'',
    AI ''4313'' FNC1 (cset_X, 1, 70, no_lint) no_part no_part no_part no_part ''RTN TO ADD2'',
    AI ''4314'' FNC1 (cset_X, 1, 70, no_lint) no_part no_part no_part no_part ''RTN TO SUB'',
    AI ''4315'' FNC1 (cset_X, 1, 70, no_lint) no_part no_part no_part no_part ''RTN TO LOC'',
    AI ''4316'' FNC1 (cset_X, 1, 70, no_lint) no_part no_part no_part no_part ''RTN TO REG'',
    AI ''4317'' FNC1 (cset_X, 2, 2, no_lint) no_part no_part no_part no_part ''RTN TO COUNTRY'',
    AI ''4318'' FNC1 (cset_X, 1, 20, no_lint) no_part no_part no_part no_part ''RTN TO POST'',
    AI ''4319'' FNC1 (cset_X, 1, 30, no_lint) no_part no_part no_part no_part ''RTN TO PHONE'',
    AI ''4320'' FNC1 (cset_X, 1, 35, no_lint) no_part no_part no_part no_part ''SRV DESCRIPTION'',
    AI ''4321'' FNC1 (cset_N, 1, 1, no_lint) no_part no_part no_part no_part ''DANGEROUS GOODS'',
    AI ''4322'' FNC1 (cset_N, 1, 1, no_lint) no_part no_part no_part no_part ''AUTH LEAVE'',
    AI ''4323'' FNC1 (cset_N, 1, 1, no_lint) no_part no_part no_part no_part ''SIG REQUIRED'',
    AI ''4324'' FNC1 (cset_N, 6, 6, no_lint) (cset_N, 4, 4, no_lint) no_part no_part no_part ''NBEF DEL DT.'',
    AI ''4325'' FNC1 (cset_N, 6, 6, no_lint) (cset_N, 4, 4, no_lint) no_part no_part no_part ''NAFT DEL DT.'',
    AI ''4326'' FNC1 (cset_N, 6, 6, no_lint) no_part no_part no_part no_part ''REL DATE'',
    AI ''7001'' FNC1 (cset_N, 13, 13, no_lint) no_part no_part no_part no_part ''NSN'',
    AI ''7002'' FNC1 (cset_X, 1, 30, no_lint) no_part no_part no_part no_part ''MEAT CUT'',
    AI ''7003'' FNC1 (cset_N, 6, 6, no_lint) (cset_N, 4, 4, no_lint) no_part no_part no_part ''EXPIRY TIME'',
    AI ''7004'' FNC1 (cset_N, 1, 4, no_lint) no_part no_part no_part no_part ''ACTIVE POTENCY'',
    AI ''7005'' FNC1 (cset_X, 1, 12, no_lint) no_part no_part no_part no_part ''CATCH AREA'',
    AI ''7006'' FNC1 (cset_N, 6, 6, no_lint) no_part no_part no_part no_part ''FIRST FREEZE DATE'',
    AI ''7007'' FNC1 (cset_N, 6, 6, no_lint) (cset_N, 0, 6, no_lint) no_part no_part no_part ''HARVEST DATE'',
    AI ''7008'' FNC1 (cset_X, 1, 3, no_lint) no_part no_part no_part no_part ''AQUATIC SPECIES'',
    AI ''7009'' FNC1 (cset_X, 1, 10, no_lint) no_part no_part no_part no_part ''FISHING GEAR TYPE''
  ]"

definition ai_table_14 :: "aiEntry list" where
  "ai_table_14 = [
    AI ''7010'' FNC1 (cset_X, 1, 2, no_lint) no_part no_part no_part no_part ''PROD METHOD'',
    AI ''7020'' FNC1 (cset_X, 1, 20, no_lint) no_part no_part no_part no_part ''REFURB LOT'',
    AI ''7021'' FNC1 (cset_X, 1, 20, no_lint) no_part no_part no_part no_part ''FUNC STAT'',
    AI ''7022'' FNC1 (cset_X, 1, 20, no_lint) no_part no_part no_part no_part ''REV STAT'',
    AI ''7023'' FNC1 (cset_X, 1, 30, no_lint) no_part no_part no_part no_part ''GIAI - ASSEMBLY'',
    AI ''7030'' FNC1 (cset_N, 3, 3, no_lint) (cset_X, 1, 27, no_lint) no_part no_part no_part ''PROCESSOR # s'',
    AI ''7031'' FNC1 (cset_N, 3, 3, no_lint) (cset_X, 1, 27, no_lint) no_part no_part no_part ''PROCESSOR # s'',
    AI ''7032'' FNC1 (cset_N, 3, 3, no_lint) (cset_X, 1, 27, no_lint) no_part no_part no_part ''PROCESSOR # s'',
    AI ''7033'' FNC1 (cset_N, 3, 3, no_lint) (cset_X, 1, 27, no_lint) no_part no_part no_part ''PROCESSOR # s'',
    AI ''7034'' FNC1 (cset_N, 3, 3, no_lint) (cset_X, 1, 27, no_lint) no_part no_part no_part ''PROCESSOR # s'',
    AI ''7035'' FNC1 (cset_N, 3, 3, no_lint) (cset_X, 1, 27, no_lint) no_part no_part no_part ''PROCESSOR # s'',
    AI ''7036'' FNC1 (cset_N, 3, 3, no_lint) (cset_X, 1, 27, no_lint) no_part no_part no_part ''PROCESSOR # s'',
    AI ''7037'' FNC1 (cset_N, 3, 3, no_lint) (cset_X, 1, 27, no_lint) no_part no_part no_part ''PROCESSOR # s'',
    AI ''7038'' FNC1 (cset_N, 3, 3, no_lint) (cset_X, 1, 27, no_lint) no_part no_part no_part ''PROCESSOR # s'',
    AI ''7039'' FNC1 (cset_N, 3, 3, no_lint) (cset_X, 1, 27, no_lint) no_part no_part no_part ''PROCESSOR # s'',
    AI ''7040'' FNC1 (cset_N, 1, 1, no_lint) (cset_X, 1, 1, no_lint) (cset_X, 1, 1, no_lint) (cset_X, 1, 1, no_lint) no_part ''UIC+EXT'',
    AI ''710'' FNC1 (cset_X, 1, 20, no_lint) no_part no_part no_part no_part ''NHRN PZN'',
    AI ''711'' FNC1 (cset_X, 1, 20, no_lint) no_part no_part no_part no_part ''NHRN CIP'',
    AI ''712'' FNC1 (cset_X, 1, 20, no_lint) no_part no_part no_part no_part ''NHRN CN'',
    AI ''713'' FNC1 (cset_X, 1, 20, no_lint) no_part no_part no_part no_part ''NHRN DRN'',
    AI ''714'' FNC1 (cset_X, 1, 20, no_lint) no_part no_part no_part no_part ''NHRN AIM'',
    AI ''7230'' FNC1 (cset_X, 2, 2, no_lint) (cset_X, 1, 28, no_lint) no_part no_part no_part ''CERT # s'',
    AI ''7231'' FNC1 (cset_X, 2, 2, no_lint) (cset_X, 1, 28, no_lint) no_part no_part no_part ''CERT # s'',
    AI ''7232'' FNC1 (cset_X, 2, 2, no_lint) (cset_X, 1, 28, no_lint) no_part no_part no_part ''CERT # s'',
    AI ''7233'' FNC1 (cset_X, 2, 2, no_lint) (cset_X, 1, 28, no_lint) no_part no_part no_part ''CERT # s'',
    AI ''7234'' FNC1 (cset_X, 2, 2, no_lint) (cset_X, 1, 28, no_lint) no_part no_part no_part ''CERT # s'',
    AI ''7235'' FNC1 (cset_X, 2, 2, no_lint) (cset_X, 1, 28, no_lint) no_part no_part no_part ''CERT # s'',
    AI ''7236'' FNC1 (cset_X, 2, 2, no_lint) (cset_X, 1, 28, no_lint) no_part no_part no_part ''CERT # s'',
    AI ''7237'' FNC1 (cset_X, 2, 2, no_lint) (cset_X, 1, 28, no_lint) no_part no_part no_part ''CERT # s'',
    AI ''7238'' FNC1 (cset_X, 2, 2, no_lint) (cset_X, 1, 28, no_lint) no_part no_part no_part ''CERT # s'',
    AI ''7239'' FNC1 (cset_X, 2, 2, no_lint) (cset_X, 1, 28, no_lint) no_part no_part no_part ''CERT # s'',
    AI ''7240'' FNC1 (cset_X, 1, 20, no_lint) no_part no_part no_part no_part ''PROTOCOL''
  ]"

definition ai_table_15 :: "aiEntry list" where
  "ai_table_15 = [
    AI ''8001'' FNC1 (cset_N, 4, 4, no_lint) (cset_N, 5, 5, no_lint) (cset_N, 3, 3, no_lint) (cset_N, 1, 1, no_lint) (cset_N, 1, 1, no_lint) ''DIMENSIONS'',
    AI ''8002'' FNC1 (cset_X, 1, 20, no_lint) no_part no_part no_part no_part ''CMT NO.'',
    AI ''8003'' FNC1 (cset_N, 1, 1, no_lint) (cset_N, 13, 13, csum) (cset_X, 0, 16, no_lint) no_part no_part ''GRAI'',
    AI ''8004'' FNC1 (cset_X, 1, 30, no_lint) no_part no_part no_part no_part ''GIAI'',
    AI ''8005'' FNC1 (cset_N, 6, 6, no_lint) no_part no_part no_part no_part ''PRICE PER UNIT'',
    AI ''8006'' FNC1 (cset_N, 14, 14, csum) (cset_N, 4, 4, no_lint) no_part no_part no_part ''ITIP'',
    AI ''8007'' FNC1 (cset_X, 1, 34, no_lint) no_part no_part no_part no_part ''IBAN'',
    AI ''8008'' FNC1 (cset_N, 8, 8, no_lint) (cset_N, 0, 4, no_lint) no_part no_part no_part ''PROD TIME'',
    AI ''8009'' FNC1 (cset_X, 1, 50, no_lint) no_part no_part no_part no_part ''OPTSEN'',
    AI ''8010'' FNC1 (cset_C, 1, 30, no_lint) no_part no_part no_part no_part ''CPID'',
    AI ''8011'' FNC1 (cset_N, 1, 12, no_lint) no_part no_part no_part no_part ''CPID SERIAL'',
    AI ''8012'' FNC1 (cset_X, 1, 20, no_lint) no_part no_part no_part no_part ''VERSION'',
    AI ''8013'' FNC1 (cset_X, 1, 25, no_lint) no_part no_part no_part no_part ''GMN'',
    AI ''8017'' FNC1 (cset_N, 18, 18, csum) no_part no_part no_part no_part ''GSRN - PROVIDER'',
    AI ''8018'' FNC1 (cset_N, 18, 18, csum) no_part no_part no_part no_part ''GSRN - RECIPIENT'',
    AI ''8019'' FNC1 (cset_N, 1, 10, no_lint) no_part no_part no_part no_part ''SRIN'',
    AI ''8020'' FNC1 (cset_X, 1, 25, no_lint) no_part no_part no_part no_part ''REF NO.'',
    AI ''8026'' FNC1 (cset_N, 14, 14, csum) (cset_N, 4, 4, no_lint) no_part no_part no_part ''ITIP CONTENT'',
    AI ''8110'' FNC1 (cset_X, 1, 70, no_lint) no_part no_part no_part no_part '''',
    AI ''8111'' FNC1 (cset_N, 4, 4, no_lint) no_part no_part no_part no_part ''POINTS'',
    AI ''8112'' FNC1 (cset_X, 1, 70, no_lint) no_part no_part no_part no_part '''',
    AI ''8200'' FNC1 (cset_X, 1, 70, no_lint) no_part no_part no_part no_part ''PRODUCT URL'',
    AI ''90'' FNC1 (cset_X, 1, 30, no_lint) no_part no_part no_part no_part ''INTERNAL'',
    AI ''91'' FNC1 (cset_X, 1, 90, no_lint) no_part no_part no_part no_part ''INTERNAL'',
    AI ''92'' FNC1 (cset_X, 1, 90, no_lint) no_part no_part no_part no_part ''INTERNAL'',
    AI ''93'' FNC1 (cset_X, 1, 90, no_lint) no_part no_part no_part no_part ''INTERNAL'',
    AI ''94'' FNC1 (cset_X, 1, 90, no_lint) no_part no_part no_part no_part ''INTERNAL'',
    AI ''95'' FNC1 (cset_X, 1, 90, no_lint) no_part no_part no_part no_part ''INTERNAL'',
    AI ''96'' FNC1 (cset_X, 1, 90, no_lint) no_part no_part no_part no_part ''INTERNAL'',
    AI ''97'' FNC1 (cset_X, 1, 90, no_lint) no_part no_part no_part no_part ''INTERNAL'',
    AI ''98'' FNC1 (cset_X, 1, 90, no_lint) no_part no_part no_part no_part ''INTERNAL'',
    AI ''99'' FNC1 (cset_X, 1, 90, no_lint) no_part no_part no_part no_part ''INTERNAL''
  ]"

definition ai_table :: "aiEntry list" where
  "ai_table = concat [ai_table_00, ai_table_01, ai_table_02, ai_table_03, ai_table_04, ai_table_05, ai_table_06, ai_table_07, ai_table_08, ai_table_09, ai_table_10, ai_table_11, ai_table_12, ai_table_13, ai_table_14, ai_table_15]"

definition fixedAIprefixes :: "string list" where
  "fixedAIprefixes = [''00'', ''01'', ''02'', ''03'', ''04'',
     ''11'', ''12'', ''13'', ''14'', ''15'', ''16'', ''17'', ''18'', ''19'',
     ''20'',
     ''31'', ''32'', ''33'', ''34'', ''35'', ''36'',
     ''41'']"

definition uriCharacters :: string where
  "uriCharacters = ''ABCDEFGHIJKLMNOPQRSTUVWXYZabcdefghijklmnopqrstuvwxyz0123456789-._~:/?#[]@!$&'' @ [CHR 0x27] @ ''()*+,;=%''"

definition cset82 :: string where
  "cset82 = ''!\"%&'' @ [CHR 0x27] @ ''()*+,-./0123456789:;<=>?ABCDEFGHIJKLMNOPQRSTUVWXYZ_abcdefghijklmnopqrstuvwxyz''"

section \<open>The check digit\<close>

definition wrap_int :: "int \<Rightarrow> int" where
  \<comment> \<open>the value that a 32-bit two's complement \<open>int\<close> holds after an operation whose
      mathematical result is \<open>k\<close>\<close>
  "wrap_int k = signed_take_bit 31 k"

fun parity_loop :: "int \<Rightarrow> int \<Rightarrow> string \<Rightarrow> int" where
  \<comment> \<open>\<open>weight\<close> and \<open>parity\<close> are C \<open>int\<close>s\<close>
  "parity_loop weight parity (c # d # cs) =
     parity_loop (wrap_int (4 - weight))
       (wrap_int (parity + wrap_int (weight * (of_char c - of_char CHR ''0'')))) (d # cs)"
| "parity_loop weight parity cs = parity"

definition gs1_validateParity :: "string \<Rightarrow> (bool \<times> string) option" where
  \<comment> \<open>\<open>None\<close> is the failed assertion on an empty string; \<open>char_of\<close> is the cast to
      \<open>uint8_t\<close>\<close>
  "gs1_validateParity str =
     (if str = [] then None
      else let weight = (if length str mod 2 = 0 then 3 else 1);
               parity = parity_loop weight 0 str;
               parity = wrap_int (wrap_int (10 - parity smod 10) smod 10)
           in if wrap_int (parity + of_char CHR ''0'') = of_char (last str) then Some (True, str)
              else Some (False, butlast str @ [char_of (wrap_int (parity + of_char CHR ''0''))]))"

definition gs1_allDigits :: "string \<Rightarrow> nat \<Rightarrow> bool" where
  \<comment> \<open>\<open>str\<close> is a C string: a \<open>len\<close> above its length makes the loop read the
      terminating NUL, which is not a digit\<close>
  "gs1_allDigits str len =
     (let len = (if len = 0 then length str else len)
      in list_all (\<lambda>c. \<not> ((of_char c :: nat) < of_char CHR ''0'' \<or> (of_char c :: nat) > of_char CHR ''9''))
           (take len (str @ [NUL])))"

section \<open>AI lookup\<close>

definition lookupAIentry_in :: "aiEntry list \<Rightarrow> string \<Rightarrow> nat \<Rightarrow> aiEntry option" where
  \<comment> \<open>the walk over a table; \<open>find\<close> stops at the first match as the \<open>break\<close> does\<close>
  "lookupAIentry_in tbl p ailen =
     find (\<lambda>entry.
        let entrylen = length (ai entry)
        in \<not> (ailen \<noteq> 0 \<and> ailen \<noteq> entrylen) \<and>
           strncmp_eq p (ai entry) (if ailen > 0 then ailen else entrylen)) tbl"

definition lookupAIentry :: "string \<Rightarrow> nat \<Rightarrow> aiEntry option" where
  "lookupAIentry p ailen = lookupAIentry_in ai_table p ailen"

definition dl_pkeys :: "string list" where
  "dl_pkeys = [''00'', ''01'', ''253'', ''255'', ''401'', ''402'', ''414'', ''417'',
     ''8003'', ''8004'', ''8006'', ''8010'', ''8013'', ''8017'', ''8018'']"

definition isDLpkey :: "string \<Rightarrow> bool" where
  "isDLpkey p = list_ex (\<lambda>k. p = k) dl_pkeys"

section \<open>The encoder context and the buffers\<close>

text \<open>
  The constants \<open>MAX_DATA\<close>, \<open>MAX_AI_LEN\<close> and \<open>MAX_AIS\<close> are declared in a header
  that is not part of the sources at hand, so every function takes them as a parameter.
\<close>

record limits =
  MAX_DATA :: nat
  MAX_AI_LEN :: nat
  MAX_AIS :: nat

text \<open>
  An extracted AI: the table entry, the offset of the value in the element string (the C
  field \<open>value\<close> is a pointer into \<open>dataStr\<close>) and the length of the value, a \<open>uint8_t\<close>.
\<close>

record aiValue =
  aiEntry :: aiEntry
  value_p :: nat
  vallen :: nat

text \<open>
  The fields of \<open>struct gs1_encoder\<close> that the parsers use.  The array \<open>aiData\<close> is a
  map from index to slot; only the slots below \<open>numAIs\<close> are live, and the code writes a
  slot only after checking \<open>numAIs < MAX_AIS\<close>.
\<close>

record gs1_encoder =
  errMsg :: string
  errFlag :: bool
  numAIs :: nat
  aiData :: "nat \<Rightarrow> aiValue"

text \<open>
  The machine state: the context, the element string buffer \<open>dataStr\<close> that the callers
  pass, and the local buffer \<open>compval\<close> of \<open>validate_ai_val\<close>.  A \<open>char *\<close> argument that
  a callee may write through is a \<open>buf\<close>, the name of the buffer it points to.
\<close>

record state = gs1_encoder +
  dataStr :: string
  compval :: string

datatype buf = Buf_dataStr | Buf_compval

fun rd :: "buf \<Rightarrow> state \<Rightarrow> string" where
  "rd Buf_dataStr st = dataStr st"
| "rd Buf_compval st = compval st"

fun wr :: "buf \<Rightarrow> string \<Rightarrow> state \<Rightarrow> state" where
  "wr Buf_dataStr v st = st\<lparr>dataStr := v\<rparr>"
| "wr Buf_compval v st = st\<lparr>compval := v\<rparr>"

definition extractedAIs :: "state \<Rightarrow> aiValue list" where
  \<comment> \<open>the live part of \<open>aiData\<close>\<close>
  "extractedAIs st = map (aiData st) [0..<numAIs st]"

section \<open>Linters\<close>

definition lint_cset82 :: "aiEntry \<Rightarrow> buf \<Rightarrow> state \<Rightarrow> bool \<times> state" where
  "lint_cset82 entry val st =
     (if \<not> list_all (\<lambda>c. c \<in> set cset82) (rd val st)
      then (False, st\<lparr>errMsg := ''AI ('' @ ai entry @ ''): Incorrect CSET 82 character'',
                       errFlag := True\<rparr>)
      else (True, st))"

definition lint_csetNumeric :: "aiEntry \<Rightarrow> buf \<Rightarrow> state \<Rightarrow> bool \<times> state" where
  "lint_csetNumeric entry val st =
     (if \<not> gs1_allDigits (rd val st) 0
      then (False, st\<lparr>errMsg := ''AI ('' @ ai entry @ ''): Illegal non-digit character'',
                       errFlag := True\<rparr>)
      else (True, st))"

definition lint_csum :: "aiEntry \<Rightarrow> buf \<Rightarrow> state \<Rightarrow> bool \<times> state" where
  \<comment> \<open>\<open>gs1_validateParity\<close> works on the buffer it is given and may overwrite its last
      byte.  The first branch is the failed assertion on an empty string, which stops the
      program; no component that carries this linter may be empty (\<open>min\<close> is positive).\<close>
  "lint_csum entry val st =
     (case gs1_validateParity (rd val st) of
        None \<Rightarrow> (False, st)
      | Some (ok, str) \<Rightarrow>
          let st = wr val str st
          in if \<not> ok
             then (False, st\<lparr>errMsg := ''AI ('' @ ai entry @ ''): Incorrect check digit'',
                              errFlag := True\<rparr>)
             else (True, st))"

fun linter :: "linter_t \<Rightarrow> aiEntry \<Rightarrow> buf \<Rightarrow> state \<Rightarrow> bool \<times> state" where
  "linter Lint_cset82 = lint_cset82"
| "linter Lint_csetNumeric = lint_csetNumeric"
| "linter Lint_csum = lint_csum"

section \<open>Validation of an AI value\<close>

fun run_linters :: "linter_t list \<Rightarrow> aiEntry \<Rightarrow> buf \<Rightarrow> state \<Rightarrow> bool \<times> state" where
  \<comment> \<open>the inner loop over \<open>part->linters\<close>, a list that ends at the first null pointer\<close>
  "run_linters [] entry val st = (True, st)"
| "run_linters (l # ls) entry val st =
     (case linter l entry val st of
        (False, st) \<Rightarrow> (False, st)
      | (True, st) \<Rightarrow> run_linters ls entry val st)"

fun validate_parts :: "aiComponent list \<Rightarrow> aiEntry \<Rightarrow> nat \<Rightarrow> nat \<Rightarrow> state \<Rightarrow> nat option \<times> state" where
  \<comment> \<open>the loop over the components, from offset \<open>p\<close> up to \<open>r\<close>; \<open>None\<close> is \<open>return 0\<close>,
      \<open>Some p\<close> the offset reached when the loop ends\<close>
  "validate_parts [] entry p r st = (Some p, st)"
| "validate_parts (part # ps) entry p r st =
     (if cset part = cset_none then (Some p, st)
      else
        let complen = (if max_c part < r - p then max_c part else r - p);
            st = st\<lparr>compval := take complen (drop p (dataStr st))\<rparr>;
            p = p + complen
        in if complen < min_c part
           then (None, st\<lparr>errMsg := ''AI ('' @ ai entry @ '') data is too short'', errFlag := True\<rparr>)
           else
             (case (if cset part = cset_N then lint_csetNumeric else lint_cset82) entry Buf_compval st of
                (False, st) \<Rightarrow> (None, st)
              | (True, st) \<Rightarrow>
                  (case run_linters (linters part) entry Buf_compval st of
                     (False, st) \<Rightarrow> (None, st)
                   | (True, st) \<Rightarrow> validate_parts ps entry p r st)))"

definition validate_ai_val :: "aiEntry \<Rightarrow> nat \<Rightarrow> nat \<Rightarrow> state \<Rightarrow> nat \<times> state" where
  \<comment> \<open>\<open>start\<close> and \<open>end\<close> are offsets into \<open>dataStr\<close>\<close>
  "validate_ai_val entry start end_p st =
     (if start = end_p
      then (0, st\<lparr>errMsg := ''AI ('' @ ai entry @ '') data is empty'', errFlag := True\<rparr>)
      else
        (case validate_parts (parts entry) entry start end_p st of
           (None, st) \<Rightarrow> (0, st)
         | (Some p, st) \<Rightarrow> (p - start, st)))"

lemma linter_dataStr: "linter l entry Buf_compval st = (ok, st') \<Longrightarrow> dataStr st' = dataStr st"
  by (cases l)
     (auto simp: lint_cset82_def lint_csetNumeric_def lint_csum_def Let_def
           split: if_splits option.splits prod.splits)

lemma run_linters_dataStr:
  "run_linters ls entry Buf_compval st = (ok, st') \<Longrightarrow> dataStr st' = dataStr st"
proof (induction ls arbitrary: st)
  case Nil
  then show ?case by simp
next
  case (Cons l ls)
  obtain b st1 where l: "linter l entry Buf_compval st = (b, st1)" by (cases "linter l entry Buf_compval st")
  from linter_dataStr[OF l] have "dataStr st1 = dataStr st" .
  with Cons l show ?case by (cases b) auto
qed

lemma validate_parts_dataStr:
  "validate_parts ps entry p r st = (res, st') \<Longrightarrow> dataStr st' = dataStr st"
proof (induction ps arbitrary: p st)
  case Nil
  then show ?case by simp
next
  case (Cons part ps)
  show ?case
  proof (cases "cset part = cset_none")
    case True
    with Cons.prems show ?thesis by simp
  next
    case False
    define complen where "complen = (if max_c part < r - p then max_c part else r - p)"
    define st1 where "st1 = st\<lparr>compval := take complen (drop p (dataStr st))\<rparr>"
    obtain b st2 where c: "(if cset part = cset_N then lint_csetNumeric else lint_cset82) entry Buf_compval st1 = (b, st2)"
      by (cases "(if cset part = cset_N then lint_csetNumeric else lint_cset82) entry Buf_compval st1")
    have d1: "dataStr st1 = dataStr st" by (simp add: st1_def)
    have d2: "dataStr st2 = dataStr st"
      using c by (auto simp: st1_def lint_cset82_def lint_csetNumeric_def split: if_splits)
    obtain b' st3 where l: "run_linters (linters part) entry Buf_compval st2 = (b', st3)"
      by (cases "run_linters (linters part) entry Buf_compval st2")
    have d3: "dataStr st3 = dataStr st" using run_linters_dataStr[OF l] d2 by simp
    from Cons.prems False c l d1 d2 d3 Cons.IH[of "p + complen" st3] show ?thesis
      by (auto simp: Let_def complen_def[symmetric] st1_def[symmetric] split: if_splits bool.splits)
  qed
qed

lemma validate_ai_val_dataStr:
  "validate_ai_val entry start end_p st = (n, st') \<Longrightarrow> dataStr st' = dataStr st"
  by (auto simp: validate_ai_val_def split: if_splits prod.splits option.splits
           dest: validate_parts_dataStr)

section \<open>The element string processor\<close>

function processAIdata_loop :: "limits \<Rightarrow> nat \<Rightarrow> state \<Rightarrow> bool \<times> state" where
  \<comment> \<open>the \<open>while (*p)\<close> loop, \<open>p\<close> an offset into \<open>dataStr\<close>\<close>
  "processAIdata_loop lim p st =
     (if deref (dataStr st) p = NUL then (True, st)
      else
        (case lookupAIentry (cstr (dataStr st) p) 0 of
           None \<Rightarrow>
             (False, st\<lparr>errMsg := ''Unrecognised AI: '' @ take 4 (cstr (dataStr st) p),
                         errFlag := True\<rparr>)
         | Some entry \<Rightarrow>
             let p = p + length (ai entry);
                 r = (case strchr (dataStr st) p CHR ''#'' of
                        None \<Rightarrow> p + strlen (dataStr st) p
                      | Some r \<Rightarrow> r)
             in (case validate_ai_val entry p r st of
                   (n, st) \<Rightarrow>
                     if n = 0 then (False, st)
                     else if numAIs st < MAX_AIS lim
                     then
                       let st = st\<lparr>aiData := (aiData st)(numAIs st :=
                                     \<lparr>aiEntry = entry, value_p = p, vallen = n mod 256\<rparr>),
                                   numAIs := numAIs st + 1\<rparr>;
                           p = p + n
                       in if fnc1 entry \<and> deref (dataStr st) p \<noteq> CHR ''#'' \<and> deref (dataStr st) p \<noteq> NUL
                          then (False, st\<lparr>errMsg := ''AI ('' @ ai entry @ '') data is too long'',
                                           errFlag := True\<rparr>)
                          else processAIdata_loop lim
                                 (if deref (dataStr st) p = CHR ''#'' then p + 1 else p) st
                     else (False, st\<lparr>errMsg := ''Too many AIs'', errFlag := True\<rparr>))))"
  by pat_completeness auto
termination
  apply (relation "measure (\<lambda>(lim, p, st). length (dataStr st) - p)")
   apply simp
  apply (auto simp: deref_def Let_def dest!: validate_ai_val_dataStr[OF sym] split: if_splits)
  done

declare processAIdata_loop.simps [simp del]

definition gs1_processAIdata :: "limits \<Rightarrow> state \<Rightarrow> bool \<times> state" where
  \<comment> \<open>the argument \<open>dataStr\<close> is the buffer of that name in the state\<close>
  "gs1_processAIdata lim st =
     (let st = st\<lparr>errMsg := [], errFlag := False\<rparr>;
          p = 0
      in if deref (dataStr st) p = NUL \<or> deref (dataStr st) p \<noteq> CHR ''#''
         then (False, st\<lparr>errMsg := ''Missing FNC1 in first position'', errFlag := True\<rparr>)
         else
           let p = p + 1
           in if deref (dataStr st) p = NUL
              then (False, st\<lparr>errMsg := ''The AI data is empty'', errFlag := True\<rparr>)
              else processAIdata_loop lim p st)"

section \<open>The bracketed AI parser\<close>

text \<open>
  A \<open>goto fail\<close> is the left summand, carrying the state at the jump (the message that
  may already be written decides what the \<open>fail\<close> label does).
\<close>

definition writeDataStr :: "limits \<Rightarrow> string \<Rightarrow> state \<Rightarrow> state + state" where
  "writeDataStr lim v st =
     (if length (dataStr st) + length v > MAX_DATA lim then Inl st
      else Inr (st\<lparr>dataStr := dataStr st @ v\<rparr>))"

definition nwriteDataStr :: "limits \<Rightarrow> string \<Rightarrow> nat \<Rightarrow> state \<Rightarrow> state + state" where
  "nwriteDataStr lim v l st =
     (if length (dataStr st) + l > MAX_DATA lim then Inl st
      else Inr (st\<lparr>dataStr := strncat (dataStr st) v l\<rparr>))"

definition aiValLengthContentCheck :: "aiEntry \<Rightarrow> string \<Rightarrow> nat \<Rightarrow> state \<Rightarrow> bool \<times> state" where
  "aiValLengthContentCheck entry aiVal vlen st =
     (let minlen = sum_list (map min_c (parts entry));
          maxlen = sum_list (map max_c (parts entry))
      in if vlen < minlen
         then (False, st\<lparr>errMsg := ''AI ('' @ ai entry @ '') value is too short''\<rparr>)
         else if vlen > maxlen
         then (False, st\<lparr>errMsg := ''AI ('' @ ai entry @ '') value is too long''\<rparr>)
         else if CHR ''#'' \<in> set (take vlen aiVal)
         then (False, st\<lparr>errMsg := ''AI ('' @ ai entry @ '') contains illegal # character''\<rparr>)
         else (True, st))"

definition fnc1req_after :: "aiEntry \<Rightarrow> bool" where
  \<comment> \<open>\<open>fnc1req\<close> after the loop over \<open>fixedAIprefixes\<close>\<close>
  "fnc1req_after entry = (\<not> list_ex (\<lambda>x. strncmp_eq x (ai entry) 2) fixedAIprefixes)"


lemma strchr_ge: "strchr b i c = Some k \<Longrightarrow> i \<le> k"
  by (auto simp: strchr_def split: if_splits)








section \<open>The Digital Link parser\<close>

definition isxdigit :: "char \<Rightarrow> bool" where
  "isxdigit c = (c \<in> set ''0123456789abcdefABCDEF'')"

definition hexval :: "char \<Rightarrow> nat" where
  \<comment> \<open>the value \<open>strtoul\<close> gives a hexadecimal digit\<close>
  "hexval c =
     (if of_char CHR ''0'' \<le> (of_char c :: nat) \<and> (of_char c :: nat) \<le> of_char CHR ''9''
      then of_char c - of_char CHR ''0''
      else if of_char CHR ''a'' \<le> (of_char c :: nat) \<and> (of_char c :: nat) \<le> of_char CHR ''f''
      then of_char c - of_char CHR ''a'' + 10
      else of_char c - of_char CHR ''A'' + 10)"

function URIunescape_loop :: "nat \<Rightarrow> string \<Rightarrow> nat \<Rightarrow> nat \<Rightarrow> nat \<Rightarrow> string \<Rightarrow> string" where
  \<comment> \<open>the input is the \<open>inlen\<close> bytes at offset \<open>off\<close> of the buffer \<open>b\<close>; \<open>j\<close> is the
      length of \<open>out\<close>.  The test \<open>i < inlen - 2\<close> is on \<open>size_t\<close>: for \<open>inlen < 2\<close> the
      right side wraps around to a value above every \<open>i\<close>.\<close>
  "URIunescape_loop maxlen b off inlen i out =
     (if i < inlen \<and> length out < maxlen
      then
        if (inlen < 2 \<or> i < inlen - 2) \<and> deref b (off + i) = CHR ''%'' \<and>
           isxdigit (deref b (off + i + 1)) \<and> isxdigit (deref b (off + i + 2))
        then URIunescape_loop maxlen b off inlen (i + 2 + 1)
               (out @ [char_of (16 * hexval (deref b (off + i + 1)) + hexval (deref b (off + i + 2)))])
        else URIunescape_loop maxlen b off inlen (i + 1) (out @ [deref b (off + i)])
      else out)"
  by pat_completeness auto
termination
  by (relation "measure (\<lambda>(maxlen, b, off, inlen, i, out). inlen - i)") auto

declare URIunescape_loop.simps [simp del]

definition URIunescape :: "nat \<Rightarrow> string \<Rightarrow> nat \<Rightarrow> nat \<Rightarrow> string" where
  \<comment> \<open>the bytes written to \<open>out\<close>; the value returned is their number\<close>
  "URIunescape maxlen b off inlen = URIunescape_loop maxlen b off inlen 0 []"

definition gtin_pad :: "string \<Rightarrow> nat \<Rightarrow> string" where
  \<comment> \<open>the loop \<open>for (i = 0; i <= 13; i++) aival[13-i] = ...\<close> on the array \<open>aival\<close>, of
      which the first 14 bytes are the new value\<close>
  "gtin_pad aival vlen =
     take 14
       (fold (\<lambda>i a. a[13 - i := (if vlen \<ge> i + 1 then a ! (vlen - i - 1) else CHR ''0'')])
          [0..<14] (aival @ replicate 15 NUL))"

definition dl_extract :: "limits \<Rightarrow> string \<Rightarrow> aiEntry \<Rightarrow> string \<Rightarrow> nat \<Rightarrow> nat \<Rightarrow> bool \<Rightarrow> state
    \<Rightarrow> state + bool \<times> state" where
  \<comment> \<open>the statements that \<open>gs1_parseDLuri\<close> runs for an AI and its value, the \<open>inlen\<close>
      bytes at offset \<open>r\<close> of the URI; the source has them twice, for the path and for the
      query parameters, with the two messages \<open>toolong\<close>.  The result has the new
      \<open>fnc1req\<close>.\<close>
  "dl_extract lim toolong entry dl r inlen fnc1req st =
     (let aival = URIunescape (MAX_AI_LEN lim) dl r inlen;
          vlen = length aival
      in if vlen = 0
         then Inl (st\<lparr>errMsg := ''Decoded AI ('' @ ai entry @ '')'' @ toolong\<rparr>)
         else
           let (aival, vlen) =
                 (if ai entry = ''01'' \<and> (vlen = 13 \<or> vlen = 12 \<or> vlen = 8)
                  then (gtin_pad aival vlen, 14) else (aival, vlen))
           in (case (if fnc1req then writeDataStr lim ''#'' st else Inr st) of
                 Inl st \<Rightarrow> Inl st
               | Inr st \<Rightarrow>
                   (case writeDataStr lim (ai entry) st of
                      Inl st \<Rightarrow> Inl st
                    | Inr st \<Rightarrow>
                        let fnc1req = fnc1req_after entry
                        in (case nwriteDataStr lim aival vlen st of
                              Inl st \<Rightarrow> Inl st
                            | Inr st \<Rightarrow>
                                (case aiValLengthContentCheck entry aival vlen st of
                                   (False, st) \<Rightarrow> Inl st
                                 | (True, st) \<Rightarrow> Inr (fnc1req, st))))))"

lemma strrchr_bounds:
  "strrchr b i c = Some k \<Longrightarrow> i \<le> k \<and> k < i + strlen b i"
proof -
  assume a: "strrchr b i c = Some k"
  then have c: "c \<in> set (cstr b i)" by (auto simp: strrchr_def split: if_splits)
  then have "0 < strlen b i" by (auto simp: strlen_def)
  with a c show ?thesis by (auto simp: strrchr_def)
qed

lemma takeWhile_stop: "\<not> P y \<Longrightarrow> length (takeWhile P (xs @ y # ys)) \<le> length xs"
  by (induction xs) auto

lemma strlen_cut: "i \<le> k \<Longrightarrow> k < length b \<Longrightarrow> strlen (b[k := NUL]) i \<le> k - i"
proof -
  assume ik: "i \<le> k" and kb: "k < length b"
  have e: "drop i (b[k := NUL]) = take (k - i) (drop i b) @ NUL # drop (Suc k) b"
    using ik kb by (simp add: drop_update_swap upd_conv_take_nth_drop drop_take)
  have "length (takeWhile (\<lambda>c. c \<noteq> NUL) (take (k - i) (drop i b) @ NUL # drop (Suc k) b))
          \<le> length (take (k - i) (drop i b))"
    by (rule takeWhile_stop) simp
  then show ?thesis
    unfolding strlen_def cstr_def e using ik kb by simp
qed

lemma strlen_le: "i + strlen b i \<le> max i (length b)"
proof -
  have "strlen b i \<le> length (drop i b)"
    unfolding strlen_def cstr_def by (rule length_takeWhile_le)
  then show ?thesis by simp
qed

function dl_findroot :: "string \<Rightarrow> nat \<Rightarrow> nat \<Rightarrow> string \<times> nat option" where
  \<comment> \<open>the backward search for the root of the DL path info, in the buffer \<open>dl\<close>, which it
      overwrites; the result is the buffer and \<open>dp\<close>\<close>
  "dl_findroot dl pi p =
     (case strrchr dl pi CHR ''/'' of
        None \<Rightarrow> (dl, None)
      | Some r \<Rightarrow>
          let dl = dl[p := CHR ''/''];
              dl = dl[r := NUL];
              p' = strrchr dl pi CHR ''/'';
              dl = dl[r := CHR ''/'']
          in (case p' of
                None \<Rightarrow> (dl, None)
              | Some p \<Rightarrow>
                  (case lookupAIentry (cstr dl (p + 1)) (r - p - 1) of
                     None \<Rightarrow> (dl, None)
                   | Some entry \<Rightarrow>
                       if isDLpkey (ai entry) then (dl, Some p)
                       else dl_findroot (dl[p := NUL]) pi p)))"
  by pat_completeness auto
termination
proof (relation "measure (\<lambda>(dl, pi, p). strlen dl pi)", goal_cases)
  case 1
  show ?case by simp
next
  case (2 dl pi p r dl1 dl2 p' dl3 q entry)
  from 2(1) have r: "pi \<le> r" "r < pi + strlen dl pi" using strrchr_bounds by blast+
  with strlen_le[of pi dl] have rl: "r < length dl" by (simp add: max_def split: if_splits)
  have "strlen dl2 pi \<le> r - pi"
    unfolding 2(3) 2(2) using r(1) rl by (intro strlen_cut) simp_all
  moreover from 2(4) 2(6) have "pi \<le> q \<and> q < pi + strlen dl2 pi"
    using strrchr_bounds by metis
  ultimately have q: "pi \<le> q" "q < r" using r(1) by auto
  have "strlen (dl3[q := NUL]) pi \<le> q - pi"
    unfolding 2(5) 2(3) 2(2) using q rl by (intro strlen_cut) simp_all
  with q r show ?case by simp
qed

declare dl_findroot.simps [simp del]

function dl_path_loop :: "limits \<Rightarrow> string \<Rightarrow> nat \<Rightarrow> bool \<Rightarrow> state \<Rightarrow> (state + bool \<times> state) option" where
  \<comment> \<open>the loop over the pairs of the DL path info; \<open>None\<close> is a failed assertion\<close>
  "dl_path_loop lim dl p fnc1req st =
     (if deref dl p = NUL then Some (Inr (fnc1req, st))
      else if deref dl p \<noteq> CHR ''/'' then None
      else
        let p = p + 1
        in (case strchr dl p CHR ''/'' of
              None \<Rightarrow> None
            | Some r \<Rightarrow>
                (case lookupAIentry (cstr dl p) (r - p) of
                   None \<Rightarrow> None
                 | Some entry \<Rightarrow>
                     let r = r + 1;
                         p = (case strchr dl r CHR ''/'' of
                                None \<Rightarrow> r + strlen dl r
                              | Some p \<Rightarrow> p)
                     in (case dl_extract lim '' from DL path info too long'' entry dl r (p - r) fnc1req st of
                           Inl st \<Rightarrow> Some (Inl st)
                         | Inr (fnc1req, st) \<Rightarrow> dl_path_loop lim dl p fnc1req st))))"
  by pat_completeness auto
termination
proof (relation "measure (\<lambda>(lim, dl, p, fnc1req, st). length dl - p)", goal_cases)
  case 1
  show ?case by simp
next
  case (2 lim dl p fnc1req st p1 r entry r1 p2 x f st')
  from 2(1) have "p < length dl" by (auto simp: deref_def split: if_splits)
  moreover from 2(4) 2(3) have "p < r" by (auto dest: strchr_ge)
  moreover from 2(7) 2(6) have "r < p2" by (auto dest: strchr_ge split: option.splits)
  ultimately show ?case by simp
qed

declare dl_path_loop.simps [simp del]

definition memchr :: "string \<Rightarrow> nat \<Rightarrow> char \<Rightarrow> nat \<Rightarrow> nat option" where
  \<comment> \<open>offset of the first \<open>c\<close> among the \<open>n\<close> bytes at offset \<open>i\<close>\<close>
  "memchr b i c n =
     (if c \<in> set (take n (drop i b))
      then Some (i + length (takeWhile (\<lambda>x. x \<noteq> c) (take n (drop i b)))) else None)"

definition skip_amp :: "string \<Rightarrow> nat \<Rightarrow> nat" where
  \<comment> \<open>\<open>while (*p == '&') p++\<close>\<close>
  "skip_amp b p = p + length (takeWhile (\<lambda>c. c = CHR ''&'') (drop p b))"

lemma skip_amp_deref: "deref b (skip_amp b p) \<noteq> CHR ''&''"
proof -
  let ?t = "takeWhile (\<lambda>c. c = CHR ''&'') (drop p b)"
  show ?thesis
  proof (cases "skip_amp b p < length b")
    case True
    then have l: "length ?t < length (drop p b)" by (simp add: skip_amp_def)
    have "drop p b ! length ?t \<noteq> CHR ''&''"
      using nth_length_takeWhile[OF l] by simp
    moreover have "drop p b ! length ?t = b ! (p + length ?t)"
      using l by (simp add: add.commute)
    ultimately show ?thesis using True by (simp add: deref_def skip_amp_def)
  next
    case False
    then show ?thesis by (simp add: deref_def)
  qed
qed

lemma strchr_deref: "strchr b i c = Some k \<Longrightarrow> deref b k = c \<and> k < length b"
proof -
  assume a: "strchr b i c = Some k"
  let ?s = "cstr b i"
  let ?t = "takeWhile (\<lambda>x. x \<noteq> c) ?s"
  from a have c: "c \<in> set ?s" and k: "k = i + length ?t"
    by (auto simp: strchr_def split: if_splits)
  have "?t \<noteq> ?s" using c by (auto simp: takeWhile_eq_all_conv)
  moreover have "?t = take (length ?t) ?s" by (rule takeWhile_eq_take)
  moreover have "length ?t \<le> length ?s" by (rule length_takeWhile_le)
  ultimately have l: "length ?t < length ?s"
    by (metis le_neq_implies_less take_all order_refl)
  then have "?s ! length ?t = c" using nth_length_takeWhile[OF l] by simp
  moreover have "?s ! length ?t = drop i b ! length ?t"
    unfolding cstr_def using l by (metis cstr_def takeWhile_nth)
  moreover have "length ?s \<le> length (drop i b)"
    unfolding cstr_def by (rule length_takeWhile_le)
  ultimately show ?thesis using l k by (auto simp: deref_def add.commute)
qed

function dl_query_loop :: "limits \<Rightarrow> string \<Rightarrow> nat \<Rightarrow> bool \<Rightarrow> state \<Rightarrow> state + bool \<times> state" where
  \<comment> \<open>the loop over the query parameters, from offset \<open>p\<close>\<close>
  "dl_query_loop lim dl p fnc1req st =
     (if deref dl p = NUL then Inr (fnc1req, st)
      else
        let p = skip_amp dl p;
            r = (case strchr dl p CHR ''&'' of
                   None \<Rightarrow> p + strlen dl p
                 | Some r \<Rightarrow> r)
        in (case memchr dl p CHR ''='' (r - p) of
              None \<Rightarrow> dl_query_loop lim dl r fnc1req st
            | Some e \<Rightarrow>
                if gs1_allDigits (cstr dl p) (e - p) \<and> lookupAIentry (cstr dl p) (e - p) = None
                then Inl (st\<lparr>errMsg := ''Unknown AI ('' @ take (e - p) (cstr dl p) @ '') in query parameters''\<rparr>)
                else
                  (case (if gs1_allDigits (cstr dl p) (e - p) then lookupAIentry (cstr dl p) (e - p) else None) of
                     None \<Rightarrow> dl_query_loop lim dl r fnc1req st
                   | Some entry \<Rightarrow>
                       let e = e + 1
                       in (case dl_extract lim '' value from DL query params too long'' entry dl e (r - e) fnc1req st of
                             Inl st \<Rightarrow> Inl st
                           | Inr (fnc1req, st) \<Rightarrow> dl_query_loop lim dl r fnc1req st))))"
  by pat_completeness auto

lemma dl_query_progress:
  assumes "deref dl p \<noteq> NUL"
  defines "q \<equiv> skip_amp dl p"
  defines "r \<equiv> (case strchr dl q CHR ''&'' of None \<Rightarrow> q + strlen dl q | Some r \<Rightarrow> r)"
  shows "p < r" and "p < length dl"
proof -
  show pl: "p < length dl" using assms(1) by (auto simp: deref_def split: if_splits)
  have pq: "p \<le> q" by (simp add: q_def skip_amp_def)
  have qr: "q \<le> r" by (auto simp: r_def dest: strchr_ge split: option.splits)
  show "p < r"
  proof (cases "p < q")
    case True
    with qr show ?thesis by simp
  next
    case False
    with pq have pq': "q = p" by simp
    have na: "deref dl q \<noteq> CHR ''&''" unfolding q_def by (rule skip_amp_deref)
    show ?thesis
    proof (cases "strchr dl q CHR ''&''")
      case None
      from assms(1) pl have "cstr dl p \<noteq> []"
        by (auto simp: cstr_def deref_def hd_drop_conv_nth takeWhile_eq_Nil_iff)
      then show ?thesis using None pq' by (simp add: r_def strlen_def)
    next
      case (Some k)
      with strchr_deref[OF Some] na strchr_ge[OF Some] pq' show ?thesis
        by (cases "k = q") (auto simp: r_def)
    qed
  qed
qed

termination dl_query_loop
proof (relation "measure (\<lambda>(lim, dl, p, fnc1req, st). length dl - p)", goal_cases)
  case 1
  show ?case by simp
next
  case (2 lim dl p fnc1req st q r)
  have "p < r" "p < length dl"
    using dl_query_progress[OF 2(1)] unfolding 2(2) 2(3) by simp_all
  then show ?case by simp
next
  case (3 lim dl p fnc1req st q r e)
  have "p < r" "p < length dl"
    using dl_query_progress[OF 3(1)] unfolding 3(2) 3(3) by simp_all
  then show ?case by simp
next
  case (4 lim dl p fnc1req st q r e entry e1 x f st')
  have "p < r" "p < length dl"
    using dl_query_progress[OF 4(1)] unfolding 4(2) 4(3) by simp_all
  then show ?case by simp
qed

declare dl_query_loop.simps [simp del]

definition dl_out :: "string \<Rightarrow> nat option \<Rightarrow> nat option \<Rightarrow> string" where
  \<comment> \<open>the label \<open>out\<close>: the delimiters of the query parameters and of the fragment are
      written back\<close>
  "dl_out dl qp fr =
     (let dl = (case qp of None \<Rightarrow> dl | Some q \<Rightarrow> dl[q - 1 := CHR ''?''])
      in case fr of None \<Rightarrow> dl | Some f \<Rightarrow> dl[f - 1 := CHR ''#''])"

definition dl_fail :: "string \<Rightarrow> nat option \<Rightarrow> nat option \<Rightarrow> state \<Rightarrow> bool \<times> string \<times> state" where
  \<comment> \<open>the label \<open>fail\<close>, which ends at the label \<open>out\<close>\<close>
  "dl_fail dl qp fr st =
     (let st = (if errMsg st = [] then st\<lparr>errMsg := ''Failed to parse DL data''\<rparr> else st);
          st = st\<lparr>errFlag := True\<rparr>;
          st = st\<lparr>dataStr := []\<rparr>
      in (False, dl_out dl qp fr, st))"

definition gs1_parseDLuri :: "limits \<Rightarrow> string \<Rightarrow> state \<Rightarrow> (bool \<times> string \<times> state) option" where
  \<comment> \<open>the result has the value returned, the buffer \<open>dlData\<close> as the function leaves it and
      the state; \<open>None\<close> is a failed assertion\<close>
  "gs1_parseDLuri lim dlData st =
     (let st = st\<lparr>dataStr := [], errMsg := [], errFlag := False\<rparr>;
          p = 0
      in if \<not> list_all (\<lambda>c. c \<in> set uriCharacters) (cstr dlData p)
         then Some (dl_fail dlData None None (st\<lparr>errMsg := ''URI contains illegal characters''\<rparr>))
         else
           (case (if strlen dlData p \<ge> 8 \<and> strncmp_eq (cstr dlData p) ''https://'' 8 then Some (p + 8)
                  else if strlen dlData p \<ge> 7 \<and> strncmp_eq (cstr dlData p) ''http://'' 7 then Some (p + 7)
                  else None) of
              None \<Rightarrow>
                Some (dl_fail dlData None None (st\<lparr>errMsg := ''Scheme must be http:// or https://''\<rparr>))
            | Some p \<Rightarrow>
                (case strchr dlData p CHR ''/'' of
                   None \<Rightarrow>
                     Some (dl_fail dlData None None
                             (st\<lparr>errMsg := ''URI must contain a domain and path info''\<rparr>))
                 | Some r \<Rightarrow>
                     if r - p < 1
                     then Some (dl_fail dlData None None
                                  (st\<lparr>errMsg := ''URI must contain a domain and path info''\<rparr>))
                     else
                       let pi = r;
                           p = r;
                           qp = map_option Suc (strchr dlData pi CHR ''?'');
                           dl = (case qp of None \<Rightarrow> dlData | Some q \<Rightarrow> dlData[q - 1 := NUL])
                       in (case dl_findroot dl pi p of
                             (dl, None) \<Rightarrow>
                               Some (dl_fail dl qp None
                                       (st\<lparr>errMsg := ''No GS1 DL keys found in path info''\<rparr>))
                           | (dl, Some dp) \<Rightarrow>
                               (case dl_path_loop lim dl dp True st of
                                  None \<Rightarrow> None
                                | Some (Inl st) \<Rightarrow> Some (dl_fail dl qp None st)
                                | Some (Inr (fnc1req, st)) \<Rightarrow>
                                    let fr = (case qp of
                                                None \<Rightarrow> None
                                              | Some q \<Rightarrow> map_option Suc (strchr dl q CHR ''#''));
                                        dl = (case fr of None \<Rightarrow> dl | Some f \<Rightarrow> dl[f - 1 := NUL])
                                    in (case (case qp of
                                                None \<Rightarrow> Inr (fnc1req, st)
                                              | Some q \<Rightarrow> dl_query_loop lim dl q fnc1req st) of
                                          Inl st \<Rightarrow> Some (dl_fail dl qp fr st)
                                        | Inr (fnc1req, st) \<Rightarrow>
                                            (case gs1_processAIdata lim st of
                                               (ret, st) \<Rightarrow> Some (ret, dl_out dl qp fr, st))))))))"

section \<open>Definitions that follow the specification\<close>

text \<open>
  The definitions of this section are written from the words of the specification, to be
  compared with the functions above, which follow the source.
\<close>

definition digit_string :: "string \<Rightarrow> bool" where
  "digit_string s = list_all (\<lambda>c. c \<in> set ''0123456789'') s"







section \<open>Predicates on the AI table\<close>

text \<open>
  What the proofs below need of the table is decidable entry by entry and for each pair of
  neighbours, and is checked by evaluation, one part of the table at a time.
\<close>

definition key_before :: "string \<Rightarrow> string \<Rightarrow> bool" where
  \<comment> \<open>\<open>a\<close> comes before \<open>b\<close> in the lexicographic order and is not a prefix of it\<close>
  "key_before a b = (a < b \<and> \<not> prefix a b)"

definition entry_ok :: "aiEntry \<Rightarrow> bool" where
  "entry_ok e =
     (let live = takeWhile (\<lambda>c. cset c \<noteq> cset_none) (parts e);
          dead = dropWhile (\<lambda>c. cset c \<noteq> cset_none) (parts e)
      in digit_string (ai e) \<and> 2 \<le> length (ai e) \<and>
         (fnc1 e \<longleftrightarrow> fnc1req_after e) \<and>
         (\<not> fnc1 e \<longrightarrow> sum_list (map min_c (parts e)) = sum_list (map max_c (parts e))) \<and>
         list_all (\<lambda>c. min_c c = 0 \<and> max_c c = 0) dead \<and>
         live \<noteq> [] \<and> 1 \<le> max_c (hd live) \<and>
         1 \<le> sum_list (map min_c (parts e)) \<and> sum_list (map max_c (parts e)) \<le> 90 \<and>
         list_all (\<lambda>c. min_c c \<le> max_c c \<and> (Lint_csum \<in> set (linters c) \<longrightarrow> 1 \<le> min_c c)) live)"

definition chunk_ok :: "aiEntry list \<Rightarrow> bool" where
  "chunk_ok es = (list_all entry_ok es \<and> successively (\<lambda>x y. key_before (ai x) (ai y)) es)"

definition chunks_joined :: "aiEntry list \<Rightarrow> aiEntry list \<Rightarrow> bool" where
  "chunks_joined xs ys = (xs \<noteq> [] \<and> ys \<noteq> [] \<and> key_before (ai (last xs)) (ai (hd ys)))"

definition ai_match :: "string \<Rightarrow> nat \<Rightarrow> aiEntry \<Rightarrow> bool" where
  \<comment> \<open>the test that \<open>lookupAIentry\<close> makes on an entry\<close>
  "ai_match p ailen entry =
     (let entrylen = length (ai entry)
      in \<not> (ailen \<noteq> 0 \<and> ailen \<noteq> entrylen) \<and>
         strncmp_eq p (ai entry) (if ailen > 0 then ailen else entrylen))"

definition processAIdata_step :: "limits \<Rightarrow> nat \<Rightarrow> state \<Rightarrow> bool \<times> state + nat \<times> state" where
  \<comment> \<open>one round of the loop of \<open>gs1_processAIdata\<close>, entered with \<open>*p\<close> not NUL: the value
      returned, or the \<open>p\<close> and the state of the next round\<close>
  "processAIdata_step lim p st =
     (case lookupAIentry (cstr (dataStr st) p) 0 of
        None \<Rightarrow>
          Inl (False, st\<lparr>errMsg := ''Unrecognised AI: '' @ take 4 (cstr (dataStr st) p),
                          errFlag := True\<rparr>)
      | Some entry \<Rightarrow>
          let p = p + length (ai entry);
              r = (case strchr (dataStr st) p CHR ''#'' of
                     None \<Rightarrow> p + strlen (dataStr st) p
                   | Some r \<Rightarrow> r)
          in (case validate_ai_val entry p r st of
                (n, st) \<Rightarrow>
                  if n = 0 then Inl (False, st)
                  else if numAIs st < MAX_AIS lim
                  then
                    let st = st\<lparr>aiData := (aiData st)(numAIs st :=
                                  \<lparr>aiEntry = entry, value_p = p, vallen = n mod 256\<rparr>),
                                numAIs := numAIs st + 1\<rparr>;
                        p = p + n
                    in if fnc1 entry \<and> deref (dataStr st) p \<noteq> CHR ''#'' \<and> deref (dataStr st) p \<noteq> NUL
                       then Inl (False, st\<lparr>errMsg := ''AI ('' @ ai entry @ '') data is too long'',
                                            errFlag := True\<rparr>)
                       else Inr (if deref (dataStr st) p = CHR ''#'' then p + 1 else p, st)
                  else Inl (False, st\<lparr>errMsg := ''Too many AIs'', errFlag := True\<rparr>)))"




definition wrote :: "state \<Rightarrow> state \<Rightarrow> bool" where
  \<comment> \<open>\<open>st'\<close> differs from \<open>st\<close> at most in \<open>dataStr\<close>\<close>
  "wrote st st' = (st' = st\<lparr>dataStr := dataStr st'\<rparr>)"

definition wrote_msg :: "state \<Rightarrow> state \<Rightarrow> bool" where
  \<comment> \<open>\<open>st'\<close> differs from \<open>st\<close> at most in \<open>dataStr\<close> and \<open>errMsg\<close>\<close>
  "wrote_msg st st' = (st' = st\<lparr>dataStr := dataStr st', errMsg := errMsg st'\<rparr>)"


fun processAIdata_rounds :: "limits \<Rightarrow> state \<Rightarrow> nat \<Rightarrow> (nat \<times> state) option" where
  \<comment> \<open>\<open>p\<close> and the context when \<open>gs1_processAIdata\<close>, called in the state \<open>st\<close>, tests
      \<open>while (*p)\<close> for the \<open>k+1\<close>-th time; \<open>None\<close> when it has returned before\<close>
  "processAIdata_rounds lim st 0 =
     (let st = st\<lparr>errMsg := [], errFlag := False\<rparr>;
          p = 0
      in if deref (dataStr st) p = NUL \<or> deref (dataStr st) p \<noteq> CHR ''#'' then None
         else
           let p = p + 1
           in if deref (dataStr st) p = NUL then None else Some (p, st))"
| "processAIdata_rounds lim st (Suc k) =
     (case processAIdata_rounds lim st k of
        None \<Rightarrow> None
      | Some (p, stp) \<Rightarrow>
          if deref (dataStr stp) p = NUL then None
          else (case processAIdata_step lim p stp of
                  Inl res \<Rightarrow> None
                | Inr round \<Rightarrow> Some round))"

section \<open>Example inputs\<close>

text \<open>
  Constants for the witnesses: some entries of the table by name, limits and a context.
\<close>

definition ai_01 :: aiEntry where
  "ai_01 = AI ''01'' NO_FNC1 (cset_N, 14, 14, csum) no_part no_part no_part no_part ''GTIN''"

definition ai_10 :: aiEntry where
  "ai_10 = AI ''10'' FNC1 (cset_X, 1, 20, no_lint) no_part no_part no_part no_part ''BATCH/LOT''"

definition ai_11 :: aiEntry where
  "ai_11 = AI ''11'' NO_FNC1 (cset_N, 6, 6, no_lint) no_part no_part no_part no_part ''PROD DATE''"

definition ai_242 :: aiEntry where
  "ai_242 = AI ''242'' FNC1 (cset_N, 1, 6, no_lint) no_part no_part no_part no_part ''MTO VARIANT''"

definition ai_99 :: aiEntry where
  "ai_99 = AI ''99'' FNC1 (cset_X, 1, 90, no_lint) no_part no_part no_part no_part ''INTERNAL''"

definition example_limits :: limits where
  "example_limits = \<lparr>MAX_DATA = 8191, MAX_AI_LEN = 90, MAX_AIS = 64\<rparr>"

definition example_state :: state where
  \<comment> \<open>a context with no error and no extracted AI, and empty buffers\<close>
  "example_state =
     \<lparr>errMsg = [], errFlag = False, numAIs = 0,
      aiData = (\<lambda>i. \<lparr>aiEntry = AI [] NO_FNC1 no_part no_part no_part no_part no_part [],
                       value_p = 0, vallen = 0\<rparr>),
      dataStr = [], compval = []\<rparr>"

definition example_parsed :: state where
  \<comment> \<open>the state after \<open>(10)12345(11)991225\<close> is parsed in \<open>example_state\<close>\<close>
  "example_parsed =
     example_state\<lparr>dataStr := ''#1012345#11991225'', compval := ''991225'', numAIs := 2,
        aiData := (aiData example_state)
          (0 := \<lparr>aiEntry = ai_10, value_p = 3, vallen = 5\<rparr>,
           1 := \<lparr>aiEntry = ai_11, value_p = 11, vallen = 6\<rparr>)\<rparr>"


section \<open>The check digit linter\<close>

lemma wrap_int_shift: "wrap_int k = (k + 2147483648) mod 4294967296 - 2147483648"
  unfolding wrap_int_def by (simp add: signed_take_bit_eq_take_bit_shift take_bit_eq_mod)

lemma wrap_int_add_left: "wrap_int (wrap_int a + b) = wrap_int (a + b)"
proof -
  have "(wrap_int a + b + 2147483648) mod 4294967296 = ((a + 2147483648) mod 4294967296 + b) mod 4294967296"
    by (simp add: wrap_int_shift[of a])
  also have "\<dots> = (a + 2147483648 + b) mod 4294967296"
    by (rule mod_add_left_eq)
  also have "a + 2147483648 + b = a + b + 2147483648" by simp
  finally have e: "(wrap_int a + b + 2147483648) mod 4294967296 = (a + b + 2147483648) mod 4294967296" .
  show ?thesis
    by (simp only: wrap_int_shift[of "wrap_int a + b"] wrap_int_shift[of "a + b"] e)
qed

lemma wrap_int_idem: "wrap_int (wrap_int k) = wrap_int k"
  using wrap_int_add_left[of k 0] by simp
















section \<open>Facts about the AI table\<close>

lemma chunk_ok_00: "chunk_ok ai_table_00"
  unfolding ai_table_00_def by code_simp

lemma chunk_ok_01: "chunk_ok ai_table_01"
  unfolding ai_table_01_def by code_simp

lemma chunk_ok_02: "chunk_ok ai_table_02"
  unfolding ai_table_02_def by code_simp

lemma chunk_ok_03: "chunk_ok ai_table_03"
  unfolding ai_table_03_def by code_simp

lemma chunk_ok_04: "chunk_ok ai_table_04"
  unfolding ai_table_04_def by code_simp

lemma chunk_ok_05: "chunk_ok ai_table_05"
  unfolding ai_table_05_def by code_simp

lemma chunk_ok_06: "chunk_ok ai_table_06"
  unfolding ai_table_06_def by code_simp

lemma chunk_ok_07: "chunk_ok ai_table_07"
  unfolding ai_table_07_def by code_simp

lemma chunk_ok_08: "chunk_ok ai_table_08"
  unfolding ai_table_08_def by code_simp

lemma chunk_ok_09: "chunk_ok ai_table_09"
  unfolding ai_table_09_def by code_simp

lemma chunk_ok_10: "chunk_ok ai_table_10"
  unfolding ai_table_10_def by code_simp

lemma chunk_ok_11: "chunk_ok ai_table_11"
  unfolding ai_table_11_def by code_simp

lemma chunk_ok_12: "chunk_ok ai_table_12"
  unfolding ai_table_12_def by code_simp

lemma chunk_ok_13: "chunk_ok ai_table_13"
  unfolding ai_table_13_def by code_simp

lemma chunk_ok_14: "chunk_ok ai_table_14"
  unfolding ai_table_14_def by code_simp

lemma chunk_ok_15: "chunk_ok ai_table_15"
  unfolding ai_table_15_def by code_simp

lemma chunks_joined_00: "chunks_joined ai_table_00 ai_table_01"
  unfolding ai_table_00_def ai_table_01_def by code_simp

lemma chunks_joined_01: "chunks_joined ai_table_01 ai_table_02"
  unfolding ai_table_01_def ai_table_02_def by code_simp

lemma chunks_joined_02: "chunks_joined ai_table_02 ai_table_03"
  unfolding ai_table_02_def ai_table_03_def by code_simp

lemma chunks_joined_03: "chunks_joined ai_table_03 ai_table_04"
  unfolding ai_table_03_def ai_table_04_def by code_simp

lemma chunks_joined_04: "chunks_joined ai_table_04 ai_table_05"
  unfolding ai_table_04_def ai_table_05_def by code_simp

lemma chunks_joined_05: "chunks_joined ai_table_05 ai_table_06"
  unfolding ai_table_05_def ai_table_06_def by code_simp

lemma chunks_joined_06: "chunks_joined ai_table_06 ai_table_07"
  unfolding ai_table_06_def ai_table_07_def by code_simp

lemma chunks_joined_07: "chunks_joined ai_table_07 ai_table_08"
  unfolding ai_table_07_def ai_table_08_def by code_simp

lemma chunks_joined_08: "chunks_joined ai_table_08 ai_table_09"
  unfolding ai_table_08_def ai_table_09_def by code_simp

lemma chunks_joined_09: "chunks_joined ai_table_09 ai_table_10"
  unfolding ai_table_09_def ai_table_10_def by code_simp

lemma chunks_joined_10: "chunks_joined ai_table_10 ai_table_11"
  unfolding ai_table_10_def ai_table_11_def by code_simp

lemma chunks_joined_11: "chunks_joined ai_table_11 ai_table_12"
  unfolding ai_table_11_def ai_table_12_def by code_simp

lemma chunks_joined_12: "chunks_joined ai_table_12 ai_table_13"
  unfolding ai_table_12_def ai_table_13_def by code_simp

lemma chunks_joined_13: "chunks_joined ai_table_13 ai_table_14"
  unfolding ai_table_13_def ai_table_14_def by code_simp

lemma chunks_joined_14: "chunks_joined ai_table_14 ai_table_15"
  unfolding ai_table_14_def ai_table_15_def by code_simp

lemma chunk_ok_append:
  "chunk_ok xs \<Longrightarrow> chunk_ok (ys @ zs) \<Longrightarrow> chunks_joined xs ys \<Longrightarrow> chunk_ok (xs @ ys @ zs)"
  by (auto simp: chunk_ok_def chunks_joined_def successively_append_iff)

lemma chunk_ok_table: "chunk_ok ai_table"
proof -
  have "chunk_ok (ai_table_15 @ [])" using chunk_ok_15 by simp
  then have "chunk_ok (ai_table_14 @ ai_table_15 @ [])"
    by (rule chunk_ok_append[OF chunk_ok_14 _ chunks_joined_14])
  then have "chunk_ok (ai_table_13 @ ai_table_14 @ ai_table_15 @ [])"
    by (rule chunk_ok_append[OF chunk_ok_13 _ chunks_joined_13])
  then have "chunk_ok (ai_table_12 @ ai_table_13 @ ai_table_14 @ ai_table_15 @ [])"
    by (rule chunk_ok_append[OF chunk_ok_12 _ chunks_joined_12])
  then have "chunk_ok (ai_table_11 @ ai_table_12 @ ai_table_13 @ ai_table_14 @ ai_table_15 @ [])"
    by (rule chunk_ok_append[OF chunk_ok_11 _ chunks_joined_11])
  then have "chunk_ok (ai_table_10 @ ai_table_11 @ ai_table_12 @ ai_table_13 @ ai_table_14 @ ai_table_15 @ [])"
    by (rule chunk_ok_append[OF chunk_ok_10 _ chunks_joined_10])
  then have "chunk_ok (ai_table_09 @ ai_table_10 @ ai_table_11 @ ai_table_12 @ ai_table_13 @ ai_table_14 @ ai_table_15 @ [])"
    by (rule chunk_ok_append[OF chunk_ok_09 _ chunks_joined_09])
  then have "chunk_ok (ai_table_08 @ ai_table_09 @ ai_table_10 @ ai_table_11 @ ai_table_12 @ ai_table_13 @ ai_table_14 @ ai_table_15 @ [])"
    by (rule chunk_ok_append[OF chunk_ok_08 _ chunks_joined_08])
  then have "chunk_ok (ai_table_07 @ ai_table_08 @ ai_table_09 @ ai_table_10 @ ai_table_11 @ ai_table_12 @ ai_table_13 @ ai_table_14 @ ai_table_15 @ [])"
    by (rule chunk_ok_append[OF chunk_ok_07 _ chunks_joined_07])
  then have "chunk_ok (ai_table_06 @ ai_table_07 @ ai_table_08 @ ai_table_09 @ ai_table_10 @ ai_table_11 @ ai_table_12 @ ai_table_13 @ ai_table_14 @ ai_table_15 @ [])"
    by (rule chunk_ok_append[OF chunk_ok_06 _ chunks_joined_06])
  then have "chunk_ok (ai_table_05 @ ai_table_06 @ ai_table_07 @ ai_table_08 @ ai_table_09 @ ai_table_10 @ ai_table_11 @ ai_table_12 @ ai_table_13 @ ai_table_14 @ ai_table_15 @ [])"
    by (rule chunk_ok_append[OF chunk_ok_05 _ chunks_joined_05])
  then have "chunk_ok (ai_table_04 @ ai_table_05 @ ai_table_06 @ ai_table_07 @ ai_table_08 @ ai_table_09 @ ai_table_10 @ ai_table_11 @ ai_table_12 @ ai_table_13 @ ai_table_14 @ ai_table_15 @ [])"
    by (rule chunk_ok_append[OF chunk_ok_04 _ chunks_joined_04])
  then have "chunk_ok (ai_table_03 @ ai_table_04 @ ai_table_05 @ ai_table_06 @ ai_table_07 @ ai_table_08 @ ai_table_09 @ ai_table_10 @ ai_table_11 @ ai_table_12 @ ai_table_13 @ ai_table_14 @ ai_table_15 @ [])"
    by (rule chunk_ok_append[OF chunk_ok_03 _ chunks_joined_03])
  then have "chunk_ok (ai_table_02 @ ai_table_03 @ ai_table_04 @ ai_table_05 @ ai_table_06 @ ai_table_07 @ ai_table_08 @ ai_table_09 @ ai_table_10 @ ai_table_11 @ ai_table_12 @ ai_table_13 @ ai_table_14 @ ai_table_15 @ [])"
    by (rule chunk_ok_append[OF chunk_ok_02 _ chunks_joined_02])
  then have "chunk_ok (ai_table_01 @ ai_table_02 @ ai_table_03 @ ai_table_04 @ ai_table_05 @ ai_table_06 @ ai_table_07 @ ai_table_08 @ ai_table_09 @ ai_table_10 @ ai_table_11 @ ai_table_12 @ ai_table_13 @ ai_table_14 @ ai_table_15 @ [])"
    by (rule chunk_ok_append[OF chunk_ok_01 _ chunks_joined_01])
  then have "chunk_ok (ai_table_00 @ ai_table_01 @ ai_table_02 @ ai_table_03 @ ai_table_04 @ ai_table_05 @ ai_table_06 @ ai_table_07 @ ai_table_08 @ ai_table_09 @ ai_table_10 @ ai_table_11 @ ai_table_12 @ ai_table_13 @ ai_table_14 @ ai_table_15 @ [])"
    by (rule chunk_ok_append[OF chunk_ok_00 _ chunks_joined_00])
  then show ?thesis by (simp add: ai_table_def)
qed


lemma lex_between_prefix:
  fixes a z :: "'a::linorder list"
  shows "a \<le> z \<Longrightarrow> z \<le> a @ w \<Longrightarrow> prefix a z"
proof (induction a arbitrary: z)
  case Nil
  then show ?case by simp
next
  case (Cons h t)
  then obtain h' t' where z: "z = h' # t'" by (cases z) auto
  from Cons.prems z have "h = h'" "t \<le> t'" "t' \<le> t @ w" by auto
  with Cons.IH z show ?case by simp
qed

lemma prefix_lex_le:
  fixes a b :: "'a::linorder list"
  shows "prefix a b \<Longrightarrow> a \<le> b"
proof (induction a arbitrary: b)
  case Nil
  then show ?case by simp
next
  case (Cons h t)
  then obtain t' where "b = h # t'" "prefix t t'" by (cases b) auto
  with Cons.IH show ?case by simp
qed

lemma key_before_trans: "key_before a b \<Longrightarrow> key_before b c \<Longrightarrow> key_before a c"
proof -
  assume ab: "key_before a b" and bc: "key_before b c"
  then have lt: "a < c" by (auto simp: key_before_def)
  have "\<not> prefix a c"
  proof
    assume "prefix a c"
    then obtain w where "c = a @ w" by (auto simp: prefix_def)
    with ab bc have "a \<le> b" "b \<le> a @ w" by (auto simp: key_before_def)
    then have "prefix a b" by (rule lex_between_prefix)
    with ab show False by (simp add: key_before_def)
  qed
  with lt show ?thesis by (simp add: key_before_def)
qed

lemma ai_table_sorted: "sorted_wrt (\<lambda>x y. key_before (ai x) (ai y)) ai_table"
proof -
  have t: "transp (\<lambda>x y. key_before (ai x) (ai y))"
    by (rule transpI) (blast intro: key_before_trans)
  show ?thesis
    using successively_conv_sorted_wrt[OF t, of ai_table] chunk_ok_table
    by (simp add: chunk_ok_def)
qed

lemma ai_table_no_prefix:
  assumes "i < length ai_table" "j < length ai_table" "i \<noteq> j"
  shows "\<not> prefix (ai (ai_table ! i)) (ai (ai_table ! j))"
proof -
  have lt: "key_before (ai (ai_table ! m)) (ai (ai_table ! n))"
    if "m < n" "n < length ai_table" for m n
    using ai_table_sorted that by (simp add: sorted_wrt_iff_nth_less)
  show ?thesis
  proof (cases "i < j")
    case True
    with lt[of i j] assms show ?thesis by (simp add: key_before_def)
  next
    case False
    with assms have "j < i" by simp
    with lt[of j i] assms have "ai (ai_table ! j) < ai (ai_table ! i)" by (simp add: key_before_def)
    then show ?thesis using prefix_lex_le by fastforce
  qed
qed

lemma ai_match_prefix: "ai_match p ailen e \<Longrightarrow> prefix (ai e) p"
proof -
  assume "ai_match p ailen e"
  then have "take (length (ai e)) p = ai e"
    by (auto simp: ai_match_def strncmp_eq_def Let_def split: if_splits)
  then show ?thesis by (metis take_is_prefix)
qed

lemma ai_table_match_unique:
  assumes "x \<in> set ai_table" "y \<in> set ai_table" "ai_match p ailen x" "ai_match p ailen y"
  shows "x = y"
proof -
  from assms(1,2) obtain i j where
    i: "i < length ai_table" "ai_table ! i = x" and j: "j < length ai_table" "ai_table ! j = y"
    by (auto simp: in_set_conv_nth)
  from assms(3,4) have "prefix (ai x) p" "prefix (ai y) p" by (auto dest: ai_match_prefix)
  then have "prefix (ai x) (ai y) \<or> prefix (ai y) (ai x)" by (rule prefix_same_cases)
  with ai_table_no_prefix[of i j] ai_table_no_prefix[of j i] i j have "i = j" by auto
  with i j show ?thesis by simp
qed

lemma find_unique_perm:
  assumes u: "\<And>x y. x \<in> set xs \<Longrightarrow> y \<in> set xs \<Longrightarrow> P x \<Longrightarrow> P y \<Longrightarrow> x = y"
    and m: "mset ys = mset xs"
  shows "find P ys = find P xs"
proof -
  from m have s: "set ys = set xs" by (rule mset_eq_setD)
  show ?thesis
  proof (cases "find P xs")
    case None
    then have "\<not> (\<exists>x\<in>set ys. P x)" using s by (auto simp: find_None_iff)
    then have "find P ys = None" by (simp add: find_None_iff)
    with None show ?thesis by simp
  next
    case (Some x)
    then have x: "x \<in> set xs" "P x" by (auto simp: find_Some_iff)
    have "find P ys \<noteq> None" using x s by (auto simp: find_None_iff)
    then obtain y where y: "find P ys = Some y" by auto
    then have "y \<in> set ys" "P y" by (auto simp: find_Some_iff)
    with u[of x y] x s have "x = y" by auto
    with Some y show ?thesis by simp
  qed
qed

lemma lookupAIentry_in_find: "lookupAIentry_in tbl p ailen = find (ai_match p ailen) tbl"
  by (simp add: lookupAIentry_in_def ai_match_def[abs_def])


lemma lookupAIentry_match:
  assumes "e \<in> set ai_table" "ai_match p ailen e"
  shows "lookupAIentry p ailen = Some e"
proof -
  have "find (ai_match p ailen) ai_table \<noteq> None"
    using assms by (auto simp: find_None_iff)
  then obtain y where y: "find (ai_match p ailen) ai_table = Some y" by auto
  then have "y \<in> set ai_table" "ai_match p ailen y" by (auto simp: find_Some_iff)
  with assms have "y = e" by (auto intro: ai_table_match_unique)
  with y show ?thesis by (simp add: lookupAIentry_def lookupAIentry_in_find)
qed

text \<open>
  Claim C8.  No two distinct entries of the AI table have keys of which one is a prefix of
  the other (so keys of equal length differ and keys of different length do not overlap);
  consequently \<open>lookupAIentry\<close>, by exact length when \<open>ailen > 0\<close> and by prefix when
  \<open>ailen = 0\<close>, returns the same entry for every reordering of the table.
\<close>

theorem lookupAIentry_deterministic:
  "(\<forall>i < length ai_table. \<forall>j < length ai_table.
      i \<noteq> j \<longrightarrow> \<not> prefix (ai (ai_table ! i)) (ai (ai_table ! j))) \<and>
   (\<forall>tbl. mset tbl = mset ai_table \<longrightarrow>
      lookupAIentry_in tbl p ailen = lookupAIentry p ailen)"
proof (intro conjI allI impI)
  fix i j
  assume "i < length ai_table" "j < length ai_table" "i \<noteq> j"
  then show "\<not> prefix (ai (ai_table ! i)) (ai (ai_table ! j))" by (rule ai_table_no_prefix)
next
  fix tbl
  assume "mset tbl = mset ai_table"
  then show "lookupAIentry_in tbl p ailen = lookupAIentry p ailen"
    unfolding lookupAIentry_def lookupAIentry_in_find
    by (intro find_unique_perm) (auto intro: ai_table_match_unique)
qed

theorem lookupAIentry_deterministic_witness:
  "0 < length ai_table \<and> 1 < length ai_table \<and> (0::nat) \<noteq> 1 \<and>
   \<not> prefix (ai (ai_table ! 0)) (ai (ai_table ! 1)) \<and>
   mset (rev ai_table) = mset ai_table \<and>
   lookupAIentry_in (rev ai_table) ''011234'' 0 = lookupAIentry ''011234'' 0"
proof -
  have l: "1 < length ai_table" by (simp add: ai_table_def ai_table_00_def)
  have m: "mset (rev ai_table) = mset ai_table" by simp
  note t = lookupAIentry_deterministic[of "''011234''" 0]
  have ne: "0 < length ai_table" using l by linarith
  have a: "\<not> prefix (ai (ai_table ! 0)) (ai (ai_table ! 1))"
    by (rule conjunct1[OF t, rule_format, of 0 1, OF ne l]) simp
  from t m have b: "lookupAIentry_in (rev ai_table) ''011234'' 0 = lookupAIentry ''011234'' 0"
    by blast
  from ne l m a b show ?thesis by simp
qed

section \<open>The element string processor: frame and induction\<close>

lemma linter_frame:
  "linter l entry b st = (ok, st') \<Longrightarrow> numAIs st' = numAIs st \<and> aiData st' = aiData st"
  by (cases l; cases b)
     (auto simp: lint_cset82_def lint_csetNumeric_def lint_csum_def Let_def
           split: if_splits option.splits prod.splits)

lemma run_linters_frame:
  "run_linters ls entry b st = (ok, st') \<Longrightarrow> numAIs st' = numAIs st \<and> aiData st' = aiData st"
proof (induction ls arbitrary: st)
  case Nil
  then show ?case by simp
next
  case (Cons l ls)
  obtain c st1 where l: "linter l entry b st = (c, st1)" by (cases "linter l entry b st")
  from linter_frame[OF l] Cons l show ?case by (cases c) auto
qed

lemma validate_parts_frame:
  "validate_parts ps entry p r st = (res, st') \<Longrightarrow> numAIs st' = numAIs st \<and> aiData st' = aiData st"
proof (induction ps arbitrary: p st)
  case Nil
  then show ?case by simp
next
  case (Cons part ps)
  show ?case
  proof (cases "cset part = cset_none")
    case True
    with Cons.prems show ?thesis by simp
  next
    case False
    define complen where "complen = (if max_c part < r - p then max_c part else r - p)"
    define st1 where "st1 = st\<lparr>compval := take complen (drop p (dataStr st))\<rparr>"
    obtain b st2 where c: "linter (if cset part = cset_N then Lint_csetNumeric else Lint_cset82) entry Buf_compval st1 = (b, st2)"
      by (cases "linter (if cset part = cset_N then Lint_csetNumeric else Lint_cset82) entry Buf_compval st1")
    have d1: "numAIs st1 = numAIs st \<and> aiData st1 = aiData st" by (simp add: st1_def)
    have d2: "numAIs st2 = numAIs st \<and> aiData st2 = aiData st"
      using linter_frame[OF c] d1 by simp
    obtain b' st3 where l: "run_linters (linters part) entry Buf_compval st2 = (b', st3)"
      by (cases "run_linters (linters part) entry Buf_compval st2")
    have d3: "numAIs st3 = numAIs st \<and> aiData st3 = aiData st"
      using run_linters_frame[OF l] d2 by simp
    from c have c': "(if cset part = cset_N then lint_csetNumeric else lint_cset82) entry Buf_compval st1 = (b, st2)"
      by (auto split: if_splits)
    from Cons.prems False c' l d1 d2 d3 Cons.IH[of "p + complen" st3] show ?thesis
      by (auto simp: Let_def complen_def[symmetric] st1_def[symmetric] split: if_splits bool.splits)
  qed
qed

lemma validate_ai_val_frame:
  "validate_ai_val entry start end_p st = (n, st') \<Longrightarrow>
     dataStr st' = dataStr st \<and> numAIs st' = numAIs st \<and> aiData st' = aiData st"
  by (auto simp: validate_ai_val_def split: if_splits prod.splits option.splits
           dest: validate_parts_dataStr validate_parts_frame)

lemma processAIdata_loop_unfold:
  "processAIdata_loop lim p st =
     (if deref (dataStr st) p = NUL then (True, st)
      else case processAIdata_step lim p st of
             Inl res \<Rightarrow> res
           | Inr (p', st') \<Rightarrow> processAIdata_loop lim p' st')"
  by (subst processAIdata_loop.simps)
     (simp add: processAIdata_step_def Let_def split: option.splits prod.splits)

lemma processAIdata_step_Inr:
  assumes "processAIdata_step lim p st = Inr (p', st')"
  obtains entry n st1 where
    "lookupAIentry (cstr (dataStr st) p) 0 = Some entry"
    "validate_ai_val entry (p + length (ai entry))
       (case strchr (dataStr st) (p + length (ai entry)) CHR ''#'' of
          None \<Rightarrow> p + length (ai entry) + strlen (dataStr st) (p + length (ai entry))
        | Some r \<Rightarrow> r) st = (n, st1)"
    "n \<noteq> 0" "numAIs st1 < MAX_AIS lim"
    "st' = st1\<lparr>aiData := (aiData st1)(numAIs st1 :=
                  \<lparr>aiEntry = entry, value_p = p + length (ai entry), vallen = n mod 256\<rparr>),
                numAIs := numAIs st1 + 1\<rparr>"
    "\<not> (fnc1 entry \<and> deref (dataStr st1) (p + length (ai entry) + n) \<noteq> CHR ''#'' \<and>
        deref (dataStr st1) (p + length (ai entry) + n) \<noteq> NUL)"
    "p' = (if deref (dataStr st1) (p + length (ai entry) + n) = CHR ''#''
           then p + length (ai entry) + n + 1 else p + length (ai entry) + n)"
  using assms
  by (auto simp: processAIdata_step_def Let_def split: option.splits prod.splits if_splits)

lemma processAIdata_step_Inr_frame:
  assumes "processAIdata_step lim p st = Inr (p', st')"
  shows "dataStr st' = dataStr st" and "numAIs st' = numAIs st + 1"
    and "\<And>i. i < numAIs st \<Longrightarrow> aiData st' i = aiData st i"
    and "numAIs st < MAX_AIS lim" and "p < p'"
proof -
  from assms obtain entry n st1 where
    v: "validate_ai_val entry (p + length (ai entry))
       (case strchr (dataStr st) (p + length (ai entry)) CHR ''#'' of
          None \<Rightarrow> p + length (ai entry) + strlen (dataStr st) (p + length (ai entry))
        | Some r \<Rightarrow> r) st = (n, st1)"
    and n: "n \<noteq> 0" and m: "numAIs st1 < MAX_AIS lim"
    and st': "st' = st1\<lparr>aiData := (aiData st1)(numAIs st1 :=
                  \<lparr>aiEntry = entry, value_p = p + length (ai entry), vallen = n mod 256\<rparr>),
                numAIs := numAIs st1 + 1\<rparr>"
    and p': "p' = (if deref (dataStr st1) (p + length (ai entry) + n) = CHR ''#''
           then p + length (ai entry) + n + 1 else p + length (ai entry) + n)"
    by (rule processAIdata_step_Inr)
  note f = validate_ai_val_frame[OF v]
  show "dataStr st' = dataStr st" using f st' by simp
  show "numAIs st' = numAIs st + 1" using f st' by simp
  show "\<And>i. i < numAIs st \<Longrightarrow> aiData st' i = aiData st i" using f st' by simp
  show "numAIs st < MAX_AIS lim" using f m by simp
  show "p < p'" using n p' by simp
qed

lemma processAIdata_step_Inl_frame:
  assumes "processAIdata_step lim p st = Inl (ok, st')"
  shows "dataStr st' = dataStr st" and "numAIs st \<le> numAIs st'"
    and "\<And>i. i < numAIs st \<Longrightarrow> aiData st' i = aiData st i" and "\<not> ok"
  using assms
  by (auto simp: processAIdata_step_def Let_def
           split: option.splits prod.splits if_splits dest!: validate_ai_val_frame)

lemma processAIdata_loop_induct [case_names finished stopped continued]:
  assumes "\<And>p st. deref (dataStr st) p = NUL \<Longrightarrow> P p st (True, st)"
    and "\<And>p st res. deref (dataStr st) p \<noteq> NUL \<Longrightarrow> processAIdata_step lim p st = Inl res \<Longrightarrow> P p st res"
    and "\<And>p st p' st'. deref (dataStr st) p \<noteq> NUL \<Longrightarrow> processAIdata_step lim p st = Inr (p', st') \<Longrightarrow>
           P p' st' (processAIdata_loop lim p' st') \<Longrightarrow> P p st (processAIdata_loop lim p' st')"
  shows "P p st (processAIdata_loop lim p st)"
proof (induction "length (dataStr st) - p" arbitrary: p st rule: less_induct)
  case less
  show ?case
  proof (cases "deref (dataStr st) p = NUL")
    case True
    with assms(1)[OF True] show ?thesis by (subst processAIdata_loop_unfold) simp
  next
    case False
    then have pl: "p < length (dataStr st)" by (auto simp: deref_def split: if_splits)
    show ?thesis
    proof (cases "processAIdata_step lim p st")
      case (Inl res)
      with assms(2)[OF False Inl] False show ?thesis by (subst processAIdata_loop_unfold) simp
    next
      case (Inr x)
      obtain p' st' where x: "x = (p', st')" by (cases x)
      note s = Inr[unfolded x]
      from processAIdata_step_Inr_frame[OF s] pl
      have "length (dataStr st') - p' < length (dataStr st) - p" by simp
      then have "P p' st' (processAIdata_loop lim p' st')" by (rule less)
      from assms(3)[OF False s this] False s show ?thesis
        by (subst processAIdata_loop_unfold) simp
    qed
  qed
qed

lemma processAIdata_loop_frame:
  "dataStr (snd (processAIdata_loop lim p st)) = dataStr st \<and>
   numAIs st \<le> numAIs (snd (processAIdata_loop lim p st)) \<and>
   (\<forall>i < numAIs st. aiData (snd (processAIdata_loop lim p st)) i = aiData st i)"
proof (induction p st rule: processAIdata_loop_induct[where lim = lim])
  case (finished p st)
  then show ?case by simp
next
  case (stopped p st res)
  obtain ok st' where "res = (ok, st')" by (cases res)
  with processAIdata_step_Inl_frame[of lim p st ok st'] stopped show ?case by simp
next
  case (continued p st p' st')
  with processAIdata_step_Inr_frame[OF continued(2)] show ?case by simp
qed

lemma extractedAIs_prefix:
  assumes "numAIs st \<le> numAIs st'" and "\<And>i. i < numAIs st \<Longrightarrow> aiData st' i = aiData st i"
  shows "prefix (extractedAIs st) (extractedAIs st')"
proof -
  have "[0..<numAIs st'] = [0..<numAIs st] @ [numAIs st..<numAIs st']"
    using assms(1) by (metis le_add_diff_inverse upt_add_eq_append zero_le)
  then have "extractedAIs st' = map (aiData st') [0..<numAIs st] @ map (aiData st') [numAIs st..<numAIs st']"
    by (simp add: extractedAIs_def)
  moreover have "map (aiData st') [0..<numAIs st] = extractedAIs st"
    unfolding extractedAIs_def using assms(2) by (intro map_cong) auto
  ultimately show ?thesis by (simp add: prefix_def)
qed

lemma gs1_processAIdata_frame:
  "dataStr (snd (gs1_processAIdata lim st)) = dataStr st \<and>
   numAIs st \<le> numAIs (snd (gs1_processAIdata lim st)) \<and>
   (\<forall>i < numAIs st. aiData (snd (gs1_processAIdata lim st)) i = aiData st i)"
  using processAIdata_loop_frame[of lim "Suc 0" "st\<lparr>errMsg := [], errFlag := False\<rparr>"]
  by (simp add: gs1_processAIdata_def Let_def)

section \<open>The output of the bracketed parser\<close>


lemma wrote_refl [simp]: "wrote st st"
  by (simp add: wrote_def)

lemma wrote_upd [simp]: "wrote st (st\<lparr>dataStr := d\<rparr>)"
  by (simp add: wrote_def)


lemma wrote_msg_refl [simp]: "wrote_msg st st"
  by (simp add: wrote_msg_def)


lemma wrote_msg_upd [simp]: "wrote_msg st (st\<lparr>errMsg := m\<rparr>)"
  by (simp add: wrote_msg_def)


















section \<open>The round trip from bracketed data to the extracted AIs\<close>





















lemma state_upd_swap:
  "(st\<lparr>dataStr := d\<rparr>)\<lparr>errMsg := m, errFlag := f\<rparr> = (st\<lparr>errMsg := m, errFlag := f\<rparr>)\<lparr>dataStr := d\<rparr>"
  by (rule state.equality) simp_all




section \<open>Evaluation of the parsers on concrete inputs\<close>

lemma ai_01_in_table: "ai_01 \<in> set ai_table"
  by (simp add: ai_01_def ai_table_def ai_table_00_def)

lemma lookup_ai_01:
  "n = 0 \<or> n = 2 \<Longrightarrow> lookupAIentry (CHR ''0'' # CHR ''1'' # rest) n = Some ai_01"
  by (rule lookupAIentry_match[OF ai_01_in_table])
     (auto simp: ai_match_def strncmp_eq_def ai_01_def AI_def)

lemma ai_10_in_table: "ai_10 \<in> set ai_table"
  by (simp add: ai_10_def ai_table_def ai_table_00_def)

lemma lookup_ai_10:
  "n = 0 \<or> n = 2 \<Longrightarrow> lookupAIentry (CHR ''1'' # CHR ''0'' # rest) n = Some ai_10"
  by (rule lookupAIentry_match[OF ai_10_in_table])
     (auto simp: ai_match_def strncmp_eq_def ai_10_def AI_def)

lemma ai_11_in_table: "ai_11 \<in> set ai_table"
  by (simp add: ai_11_def ai_table_def ai_table_00_def)

lemma lookup_ai_11:
  "n = 0 \<or> n = 2 \<Longrightarrow> lookupAIentry (CHR ''1'' # CHR ''1'' # rest) n = Some ai_11"
  by (rule lookupAIentry_match[OF ai_11_in_table])
     (auto simp: ai_match_def strncmp_eq_def ai_11_def AI_def)

lemma ai_242_in_table: "ai_242 \<in> set ai_table"
  by (simp add: ai_242_def ai_table_def ai_table_00_def)

lemma lookup_ai_242:
  "n = 0 \<or> n = 3 \<Longrightarrow> lookupAIentry (CHR ''2'' # CHR ''4'' # CHR ''2'' # rest) n = Some ai_242"
  by (rule lookupAIentry_match[OF ai_242_in_table])
     (auto simp: ai_match_def strncmp_eq_def ai_242_def AI_def)

lemma ai_99_in_table: "ai_99 \<in> set ai_table"
  by (simp add: ai_99_def ai_table_def ai_table_15_def)

lemma lookup_ai_99:
  "n = 0 \<or> n = 2 \<Longrightarrow> lookupAIentry (CHR ''9'' # CHR ''9'' # rest) n = Some ai_99"
  by (rule lookupAIentry_match[OF ai_99_in_table])
     (auto simp: ai_match_def strncmp_eq_def ai_99_def AI_def)

lemmas c_string_simps = deref_def cstr_def strchr_def strlen_def strncmp_eq_def strncat_def

lemma char_of_49: "char_of (49::int) = CHR ''1''"
  by code_simp

lemma parity_12345678901231:
  "gs1_validateParity ''12345678901231'' = Some (True, ''12345678901231'')"
  apply (simp add: gs1_validateParity_def Let_def)
  apply (simp add: wrap_int_shift)
  apply (simp add: smod_int_alt_def)
  done

lemma parity_12345678901234:
  "gs1_validateParity ''12345678901234'' = Some (False, ''12345678901231'')"
  apply (simp add: gs1_validateParity_def Let_def)
  apply (simp add: wrap_int_shift)
  apply (simp add: smod_int_alt_def)
  apply (simp add: wrap_int_shift char_of_49)
  done

lemmas validate_simps = validate_ai_val_def lint_csetNumeric_def lint_cset82_def lint_csum_def
  gs1_allDigits_def parity_12345678901231 parity_12345678901234 cset82_def AI_def mk_part_def Let_def

lemmas entry_simps = ai_01_def ai_10_def ai_11_def ai_242_def ai_99_def

lemmas lookup_simps = lookup_ai_01 lookup_ai_10 lookup_ai_11 lookup_ai_242 lookup_ai_99





lemma extracted_example_parsed:
  "extractedAIs example_parsed =
     [\<lparr>aiEntry = ai_10, value_p = 3, vallen = 5\<rparr>, \<lparr>aiEntry = ai_11, value_p = 11, vallen = 6\<rparr>]"
  by (simp add: extractedAIs_def example_parsed_def upt_rec)


section \<open>The round trip on examples\<close>



section \<open>The check after a value\<close>

lemma processAIdata_rounds_run:
  "processAIdata_rounds lim st k = Some (p, stp) \<Longrightarrow>
     dataStr stp = dataStr st \<and> gs1_processAIdata lim st = processAIdata_loop lim p stp"
proof (induction k arbitrary: p stp)
  case 0
  then show ?case
    by (auto simp: gs1_processAIdata_def Let_def split: if_splits)
next
  case (Suc k)
  from Suc.prems obtain q stq where
    r: "processAIdata_rounds lim st k = Some (q, stq)"
    and nz: "deref (dataStr stq) q \<noteq> NUL"
    and s: "processAIdata_step lim q stq = Inr (p, stp)"
    by (auto split: option.splits if_splits sum.splits)
  from Suc.IH[OF r] have d: "dataStr stq = dataStr st"
    and l: "gs1_processAIdata lim st = processAIdata_loop lim q stq" by simp_all
  from processAIdata_step_Inr_frame(1)[OF s] d have "dataStr stp = dataStr st" by simp
  moreover have "processAIdata_loop lim q stq = processAIdata_loop lim p stp"
    using nz s by (subst processAIdata_loop_unfold) simp
  ultimately show ?case using l by simp
qed

lemma processAIdata_example_01:
  "gs1_processAIdata lim (st\<lparr>dataStr := ''#0112345678901231#''\<rparr>) =
     (if numAIs st < MAX_AIS lim
      then (True, st\<lparr>dataStr := ''#0112345678901231#'', errMsg := [], errFlag := False,
                     compval := ''12345678901231'',
                     aiData := (aiData st)(numAIs st := \<lparr>aiEntry = ai_01, value_p = 3, vallen = 14\<rparr>),
                     numAIs := numAIs st + 1\<rparr>)
      else (False, st\<lparr>dataStr := ''#0112345678901231#'', compval := ''12345678901231'',
                      errMsg := ''Too many AIs'', errFlag := True\<rparr>))"
proof -
  have v: "Suc (Suc (Suc 0)) = 3" by simp
  show ?thesis
    by (simp add: gs1_processAIdata_def processAIdata_loop.simps c_string_simps lookup_simps
        entry_simps validate_simps v)
qed

text \<open>
  Claim C7.  In \<open>gs1_processAIdata\<close>, in any round of the loop (the \<open>k+1\<close>-th, entered at
  offset \<open>p\<close>) in which an AI is found, its value validates with \<open>n\<close> bytes consumed and
  there is room in the extracted list: if the AI requires FNC1 and the character after the
  value is neither \<open>#\<close> nor the end of the string, the function returns false with the
  message \<open>AI (...) data is too long\<close>; if the character after the value is \<open>#\<close>, it is
  skipped and the function goes on with the next round, whether or not the AI requires
  FNC1, and returns true if the string ends there.  So \<open>#0112345678901231#\<close> is accepted.
\<close>

theorem processAIdata_after_value:
  assumes "processAIdata_rounds lim st k = Some (p, stp)"
    and "deref (dataStr st) p \<noteq> NUL"
    and "lookupAIentry (cstr (dataStr st) p) 0 = Some entry"
    and "validate_ai_val entry (p + length (ai entry))
           (case strchr (dataStr st) (p + length (ai entry)) CHR ''#'' of
              None \<Rightarrow> p + length (ai entry) + strlen (dataStr st) (p + length (ai entry))
            | Some r \<Rightarrow> r) stp = (n, st1)"
    and "n \<noteq> 0" and "numAIs st1 < MAX_AIS lim"
    and "st2 = st1\<lparr>aiData := (aiData st1)(numAIs st1 :=
                  \<lparr>aiEntry = entry, value_p = p + length (ai entry), vallen = n mod 256\<rparr>),
                numAIs := numAIs st1 + 1\<rparr>"
    and "q = p + length (ai entry) + n"
  shows "(fnc1 entry \<and> deref (dataStr st) q \<noteq> CHR ''#'' \<and> deref (dataStr st) q \<noteq> NUL \<longrightarrow>
            gs1_processAIdata lim st =
              (False, st2\<lparr>errMsg := ''AI ('' @ ai entry @ '') data is too long'', errFlag := True\<rparr>)) \<and>
         (deref (dataStr st) q = CHR ''#'' \<longrightarrow>
            processAIdata_rounds lim st (Suc k) = Some (q + 1, st2) \<and>
            gs1_processAIdata lim st = processAIdata_loop lim (q + 1) st2 \<and>
            (deref (dataStr st) (q + 1) = NUL \<longrightarrow> gs1_processAIdata lim st = (True, st2))) \<and>
         (numAIs st < MAX_AIS lim \<longrightarrow>
            gs1_processAIdata lim (st\<lparr>dataStr := ''#0112345678901231#''\<rparr>) =
              (True, st\<lparr>dataStr := ''#0112345678901231#'', errMsg := [], errFlag := False,
                     compval := ''12345678901231'',
                     aiData := (aiData st)(numAIs st := \<lparr>aiEntry = ai_01, value_p = 3, vallen = 14\<rparr>),
                     numAIs := numAIs st + 1\<rparr>))"
proof -
  from processAIdata_rounds_run[OF assms(1)] have dp: "dataStr stp = dataStr st"
    and run: "gs1_processAIdata lim st = processAIdata_loop lim p stp" by simp_all
  have d: "dataStr st1 = dataStr st" using validate_ai_val_frame[OF assms(4)] dp by simp
  have d2: "dataStr st2 = dataStr st" using d assms(7) by simp
  note h = assms(2-4)[unfolded dp[symmetric]]
  have d1: "dataStr st1 = dataStr stp" using d dp by simp
  have a: "gs1_processAIdata lim st =
              (False, st2\<lparr>errMsg := ''AI ('' @ ai entry @ '') data is too long'', errFlag := True\<rparr>)"
    if "fnc1 entry \<and> deref (dataStr st) q \<noteq> CHR ''#'' \<and> deref (dataStr st) q \<noteq> NUL"
    unfolding run using that[unfolded dp[symmetric]] h assms(5-8) d1
    by (subst processAIdata_loop.simps) (simp add: Let_def)
  have s: "processAIdata_step lim p stp = Inr (q + 1, st2)" if "deref (dataStr st) q = CHR ''#''"
    using that[unfolded dp[symmetric]] h assms(5-8) d1 by (simp add: processAIdata_step_def Let_def)
  have b: "processAIdata_rounds lim st (Suc k) = Some (q + 1, st2)" if "deref (dataStr st) q = CHR ''#''"
    using s[OF that] assms(1,2) dp by simp
  have c: "gs1_processAIdata lim st = processAIdata_loop lim (q + 1) st2"
    if "deref (dataStr st) q = CHR ''#''"
    using processAIdata_rounds_run[OF b[OF that]] by simp
  have e: "gs1_processAIdata lim st = (True, st2)"
    if "deref (dataStr st) q = CHR ''#''" "deref (dataStr st) (q + 1) = NUL"
    unfolding c[OF that(1)] using that(2) d2 by (subst processAIdata_loop.simps) simp
  have f: "gs1_processAIdata lim (st\<lparr>dataStr := ''#0112345678901231#''\<rparr>) =
              (True, st\<lparr>dataStr := ''#0112345678901231#'', errMsg := [], errFlag := False,
                     compval := ''12345678901231'',
                     aiData := (aiData st)(numAIs st := \<lparr>aiEntry = ai_01, value_p = 3, vallen = 14\<rparr>),
                     numAIs := numAIs st + 1\<rparr>)"
    if "numAIs st < MAX_AIS lim"
    using that by (simp add: processAIdata_example_01)
  from a b c e f show ?thesis by blast
qed


theorem processAIdata_after_value_witness:
  "processAIdata_rounds example_limits (example_state\<lparr>dataStr := ''#0112345678901231#2421234567''\<rparr>) 0 =
     Some (1, example_state\<lparr>dataStr := ''#0112345678901231#2421234567''\<rparr>) \<and>
   lookupAIentry (cstr ''#0112345678901231#2421234567'' 1) 0 = Some ai_01 \<and>
   validate_ai_val ai_01 3 17 (example_state\<lparr>dataStr := ''#0112345678901231#2421234567''\<rparr>) =
     (14, example_state\<lparr>dataStr := ''#0112345678901231#2421234567'', compval := ''12345678901231''\<rparr>) \<and>
   \<not> fnc1 ai_01 \<and> deref ''#0112345678901231#2421234567'' 17 = CHR ''#'' \<and>
   processAIdata_rounds example_limits (example_state\<lparr>dataStr := ''#0112345678901231#2421234567''\<rparr>) 1 =
     Some (18, example_state\<lparr>dataStr := ''#0112345678901231#2421234567'', compval := ''12345678901231'',
          aiData := (aiData example_state)(0 := \<lparr>aiEntry = ai_01, value_p = 3, vallen = 14\<rparr>),
          numAIs := 1\<rparr>) \<and>
   lookupAIentry (cstr ''#0112345678901231#2421234567'' 18) 0 = Some ai_242 \<and>
   fnc1 ai_242 \<and> deref ''#0112345678901231#2421234567'' 27 = CHR ''7'' \<and>
   gs1_processAIdata example_limits (example_state\<lparr>dataStr := ''#0112345678901231#2421234567''\<rparr>) =
     (False, example_state\<lparr>dataStr := ''#0112345678901231#2421234567'', compval := ''123456'',
          aiData := (aiData example_state)
            (0 := \<lparr>aiEntry = ai_01, value_p = 3, vallen = 14\<rparr>,
             1 := \<lparr>aiEntry = ai_242, value_p = 21, vallen = 6\<rparr>),
          numAIs := 2, errMsg := ''AI (242) data is too long'', errFlag := True\<rparr>) \<and>
   gs1_processAIdata example_limits (example_state\<lparr>dataStr := ''#0112345678901231#''\<rparr>) =
     (True, example_state\<lparr>dataStr := ''#0112345678901231#'', compval := ''12345678901231'',
          aiData := (aiData example_state)(0 := \<lparr>aiEntry = ai_01, value_p = 3, vallen = 14\<rparr>),
          numAIs := 1\<rparr>)"
proof -
  let ?D = "''#0112345678901231#2421234567''"
  let ?t = "example_state\<lparr>dataStr := ?D\<rparr>"
  let ?t1 = "example_state\<lparr>dataStr := ?D, compval := ''12345678901231''\<rparr>"
  let ?t2 = "?t1\<lparr>aiData := (aiData ?t1)(numAIs ?t1 :=
                  \<lparr>aiEntry = ai_01, value_p = 1 + length (ai ai_01), vallen = 14 mod 256\<rparr>),
                numAIs := numAIs ?t1 + 1\<rparr>"
  let ?t3 = "?t2\<lparr>compval := ''123456''\<rparr>"
  have v: "Suc (Suc (Suc 0)) = 3" "Suc (Suc (Suc (Suc 0))) = 4" by simp_all
  have n: "numAIs example_state = 0" "errMsg example_state = []" "errFlag example_state = False"
    by (simp_all add: example_state_def)
  have r0: "processAIdata_rounds example_limits ?t 0 = Some (1, ?t)"
    by (simp add: deref_def example_state_def)
  have a1: "deref (dataStr ?t) 1 \<noteq> NUL" by (simp add: deref_def)
  have a2: "lookupAIentry (cstr (dataStr ?t) 1) 0 = Some ai_01"
    by (simp add: cstr_def lookup_simps)
  have a3: "validate_ai_val ai_01 (1 + length (ai ai_01))
           (case strchr (dataStr ?t) (1 + length (ai ai_01)) CHR ''#'' of
              None \<Rightarrow> 1 + length (ai ai_01) + strlen (dataStr ?t) (1 + length (ai ai_01))
            | Some r \<Rightarrow> r) ?t = (14, ?t1)"
    by (simp add: c_string_simps entry_simps validate_simps)
  have a4: "(14::nat) \<noteq> 0" by simp
  have a5: "numAIs ?t1 < MAX_AIS example_limits" by (simp add: example_state_def example_limits_def)
  have a7: "(17::nat) = 1 + length (ai ai_01) + 14" by (simp add: entry_simps AI_def)
  note A = processAIdata_after_value[OF r0 a1 a2 a3 a4 a5 refl a7]
  have g: "deref ?D 17 = CHR ''#''" "deref ?D 27 = CHR ''7''" "deref ?D 18 \<noteq> NUL"
    by (simp_all add: deref_def)
  from A g(1) have r1: "processAIdata_rounds example_limits ?t (Suc 0) = Some (17 + 1, ?t2)"
    by simp
  have b1: "deref (dataStr ?t) (17 + 1) \<noteq> NUL" using g(3) by simp
  have b2: "lookupAIentry (cstr (dataStr ?t) (17 + 1)) 0 = Some ai_242"
    by (simp add: cstr_def lookup_simps)
  have b3: "validate_ai_val ai_242 (17 + 1 + length (ai ai_242))
           (case strchr (dataStr ?t) (17 + 1 + length (ai ai_242)) CHR ''#'' of
              None \<Rightarrow> 17 + 1 + length (ai ai_242) + strlen (dataStr ?t) (17 + 1 + length (ai ai_242))
            | Some r \<Rightarrow> r) ?t2 = (6, ?t3)"
    by (simp add: c_string_simps entry_simps validate_simps)
  have b4: "(6::nat) \<noteq> 0" by simp
  have b5: "numAIs ?t3 < MAX_AIS example_limits" by (simp add: example_state_def example_limits_def)
  have b7: "(27::nat) = 17 + 1 + length (ai ai_242) + 6" by (simp add: entry_simps AI_def)
  note B = processAIdata_after_value[OF r1 b1 b2 b3 b4 b5 refl b7]
  have f: "\<not> fnc1 ai_01" "fnc1 ai_242" by (simp_all add: entry_simps AI_def)
  from B f g have B1: "gs1_processAIdata example_limits ?t =
      (False, (?t3\<lparr>aiData := (aiData ?t3)(numAIs ?t3 :=
                  \<lparr>aiEntry = ai_242, value_p = 17 + 1 + length (ai ai_242), vallen = 6 mod 256\<rparr>),
                numAIs := numAIs ?t3 + 1\<rparr>)\<lparr>errMsg := ''AI ('' @ ai ai_242 @ '') data is too long'', errFlag := True\<rparr>)"
    by simp
  have l: "numAIs ?t < MAX_AIS example_limits"
    by (simp add: example_state_def example_limits_def)
  from A l have A3: "gs1_processAIdata example_limits (example_state\<lparr>dataStr := ''#0112345678901231#''\<rparr>) =
              (True, example_state\<lparr>dataStr := ''#0112345678901231#'', errMsg := [], errFlag := False,
                     compval := ''12345678901231'',
                     aiData := (aiData example_state)(numAIs example_state := \<lparr>aiEntry = ai_01, value_p = 3, vallen = 14\<rparr>),
                     numAIs := numAIs example_state + 1\<rparr>)"
    by simp
  have c: "validate_ai_val ai_01 3 17 ?t = (14, ?t1)"
    by (simp add: entry_simps validate_simps)
  have e: "example_state\<lparr>errMsg := [], errFlag := False\<rparr> = example_state"
    by (simp add: example_state_def)
  show ?thesis
    using r0 a2 c f g r1 b2 B1 A3 n e
    by (simp add: entry_simps AI_def v state_upd_swap del: processAIdata_rounds.simps)
qed

section \<open>Validation works on a copy\<close>

text \<open>
  Claim C10.  \<open>validate_ai_val\<close> copies each component into the local buffer \<open>compval\<close>
  and hands that buffer to the linters, so neither it nor \<open>gs1_processAIdata\<close> changes a
  byte of the element string \<open>dataStr\<close>, whatever the input.  When the check digit linter
  fails, the byte that \<open>gs1_validateParity\<close> overwrites is the last byte of the copy, as
  the example after the theorem shows.
\<close>

theorem validation_keeps_dataStr:
  "dataStr (snd (validate_ai_val entry start end_p st)) = dataStr st \<and>
   dataStr (snd (gs1_processAIdata lim st)) = dataStr st"
  using validate_ai_val_dataStr[of entry start end_p st] gs1_processAIdata_frame[of lim st]
  by (cases "validate_ai_val entry start end_p st") simp

lemma csum_failure_example:
  "gs1_processAIdata lim (st\<lparr>dataStr := ''#0112345678901234''\<rparr>) =
     (False, st\<lparr>dataStr := ''#0112345678901234'', compval := ''12345678901231'',
                 errMsg := ''AI (01): Incorrect check digit'', errFlag := True\<rparr>)"
  by (simp add: gs1_processAIdata_def processAIdata_loop.simps c_string_simps lookup_simps
      entry_simps validate_simps char_of_49)

end
